theory Spec2Isabelle
  imports Main
begin

section \<open>The EGL vocabulary used by GLContextAndroid.cpp\<close>

text \<open>
  Handles (EGLDisplay, EGLSurface, EGLContext, EGLConfig, ANativeWindow*) are opaque
  values; each type has one distinguished sentinel, the null handle. The numeric
  values below are those of the Khronos EGL header, which the source includes and
  does not redefine; the development only relies on the error codes being distinct.
\<close>

type_synonym handle = nat

definition EGL_NO_DISPLAY :: handle where "EGL_NO_DISPLAY = 0"
definition EGL_NO_SURFACE :: handle where "EGL_NO_SURFACE = 0"
definition EGL_NO_CONTEXT :: handle where "EGL_NO_CONTEXT = 0"
definition nullptr :: handle where "nullptr = 0"

definition EGL_SUCCESS :: int where "EGL_SUCCESS = 0x3000"
definition EGL_BAD_CONTEXT :: int where "EGL_BAD_CONTEXT = 0x3006"
definition EGL_BAD_SURFACE :: int where "EGL_BAD_SURFACE = 0x300D"
definition EGL_CONTEXT_LOST :: int where "EGL_CONTEXT_LOST = 0x300E"
definition GL_NO_ERROR :: int where "GL_NO_ERROR = 0"

named_theorems egl_consts \<open>unfolding rules of the EGL constants\<close>

lemmas egl_const_defs [egl_consts] =
  EGL_NO_DISPLAY_def EGL_NO_SURFACE_def EGL_NO_CONTEXT_def nullptr_def
  EGL_SUCCESS_def EGL_BAD_CONTEXT_def EGL_BAD_SURFACE_def EGL_CONTEXT_LOST_def
  GL_NO_ERROR_def

datatype surface_attr = EGL_WIDTH | EGL_HEIGHT

datatype config_attr = EGL_NATIVE_VISUAL_ID | EGL_MIN_SWAP_INTERVAL | EGL_MAX_SWAP_INTERVAL

datatype gl_pname = GL_MAJOR_VERSION | GL_MINOR_VERSION

datatype gl_cap = GL_FRAMEBUFFER_SRGB | GL_DEBUG_OUTPUT_SYNCHRONOUS

text \<open>
  The outcome of \<^verbatim>\<open>eglChooseConfig(display, attribs, &config_, 1, &num_configs)\<close>:
  the call returns EGL_FALSE, or it returns EGL_TRUE with \<open>num_configs = 0\<close> and
  \<open>config_\<close> untouched, or EGL_TRUE with \<open>num_configs = 1\<close> and the configuration
  written to \<open>config_\<close>.
\<close>

datatype choose_result = ChooseFailed | NoMatch | Match handle

text \<open>
  Every call into the platform is recorded, with its arguments and the answer the
  platform gave. A query that writes through an out-pointer answers \<open>None\<close> when it
  fails and leaves the pointee as it was.
\<close>

datatype egl_call =
    EglGetDisplay handle
  | EglInitialize handle bool
  | EglChooseConfig handle int int choose_result
  | EglCreateWindowSurface handle handle handle handle
  | EglQuerySurface handle handle surface_attr "int option"
  | EglGetConfigAttrib handle handle config_attr "int option"
  | ANativeWindow_setBuffersGeometry handle int int "int option"
  | EglCreateContext handle handle int int handle
  | EglMakeCurrent handle handle handle handle bool
  | EglGetCurrentContext handle
  | EglGetError int
  | EglSwapInterval handle int
  | EglSwapBuffers handle handle bool
  | EglDestroyContext handle handle
  | EglDestroySurface handle handle
  | EglTerminate handle
  | GlGetString string
  | LoadGLFunctions
  | GlEnable gl_cap
  | GlGetError int
  | GlGetIntegerv gl_pname "int option"
  | GlDebugMessageCallback

text \<open>
  The platform is everything behind the EGL and GL entry points. It is deterministic
  in the history of calls made so far: each entry point maps that history and its
  arguments to an answer. Any behaviour of a driver over time (a context that is
  lost at the third frame, a make-current that succeeds on the second attempt) is
  one such function.
\<close>

record platform =
  eglGetDisplay :: "egl_call list \<Rightarrow> handle"
  eglInitialize :: "egl_call list \<Rightarrow> handle \<Rightarrow> bool"
  eglChooseConfig :: "egl_call list \<Rightarrow> handle \<Rightarrow> int \<Rightarrow> int \<Rightarrow> choose_result"
  eglCreateWindowSurface :: "egl_call list \<Rightarrow> handle \<Rightarrow> handle \<Rightarrow> handle \<Rightarrow> handle"
  eglQuerySurface :: "egl_call list \<Rightarrow> handle \<Rightarrow> handle \<Rightarrow> surface_attr \<Rightarrow> int option"
  eglGetConfigAttrib :: "egl_call list \<Rightarrow> handle \<Rightarrow> handle \<Rightarrow> config_attr \<Rightarrow> int option"
  eglCreateContext :: "egl_call list \<Rightarrow> handle \<Rightarrow> handle \<Rightarrow> int \<Rightarrow> int \<Rightarrow> handle"
  eglMakeCurrent :: "egl_call list \<Rightarrow> handle \<Rightarrow> handle \<Rightarrow> handle \<Rightarrow> handle \<Rightarrow> bool"
  eglGetCurrentContext :: "egl_call list \<Rightarrow> handle"
  eglGetError :: "egl_call list \<Rightarrow> int"
  eglSwapBuffers :: "egl_call list \<Rightarrow> handle \<Rightarrow> handle \<Rightarrow> bool"
  glGetString :: "egl_call list \<Rightarrow> string"
  glGetError :: "egl_call list \<Rightarrow> int"
  glGetIntegerv :: "egl_call list \<Rightarrow> gl_pname \<Rightarrow> int option"
  glDebugMessageCallback :: "egl_call list \<Rightarrow> bool"

section \<open>The context manager's state\<close>

datatype severity = Info | Warning | Error

text \<open>
  A log line: its level, its fixed text (without a trailing newline) and the numbers
  formatted into it.
\<close>

datatype log_entry = Log severity string "int list"

text \<open>
  The fields of class GLContext that GLContextAndroid.cpp reads and writes, named as
  in the source without the trailing underscore (\<open>display_\<close> is \<open>display\<close>,
  and so on), followed by the two things the object does to the outside: the
  platform calls it made (\<open>calls\<close>) and the lines it logged (\<open>logged\<close>).
  \<open>EGLint\<close> fields are integers; no operation of the source on them can overflow
  (they are assigned, compared, and passed to \<open>max\<close> and \<open>min\<close>).
\<close>

record GLContext =
  display :: handle
  surface :: handle
  "context" :: handle
  config :: handle
  window :: handle
  color_size :: int
  depth_size :: int
  screen_width :: int
  screen_height :: int
  min_swap_interval :: int
  max_swap_interval :: int
  major_version :: int
  minor_version :: int
  context_valid :: bool
  egl_context_initialized :: bool
  gles_initialized :: bool
  calls :: "egl_call list"
  logged :: "log_entry list"

text \<open>
  A member function either returns or leaves through \<^verbatim>\<open>LOG_ERROR_AND_THROW\<close>
  with a runtime error; in both cases the object keeps the fields as they were
  written up to that point.
\<close>

datatype 'a result = Returned 'a | Threw string

definition call :: "egl_call \<Rightarrow> GLContext \<Rightarrow> GLContext" where
  "call c s = s\<lparr>calls := calls s @ [c]\<rparr>"

definition LOG :: "severity \<Rightarrow> string \<Rightarrow> int list \<Rightarrow> GLContext \<Rightarrow> GLContext" where
  "LOG sev msg args s = s\<lparr>logged := logged s @ [Log sev msg args]\<rparr>"

text \<open>
  Modelled from the spec: the macro \<^verbatim>\<open>LOG_ERROR_AND_THROW\<close> is defined outside
  GLContextAndroid.cpp. By the specification a fatal condition is logged and raises
  a runtime error carrying the descriptive message; the \<^verbatim>\<open>catch\<close> in SwapBuffers
  is for \<^verbatim>\<open>std::runtime_error\<close>.
\<close>

definition LOG_ERROR_AND_THROW :: "string \<Rightarrow> GLContext \<Rightarrow> 'a result \<times> GLContext" where
  "LOG_ERROR_AND_THROW msg s = (Threw msg, LOG Error msg [] s)"

text \<open>The platform calls made between state \<open>s\<close> and a later state \<open>s'\<close>.\<close>

definition new_calls :: "GLContext \<Rightarrow> GLContext \<Rightarrow> egl_call list" where
  "new_calls s s' = drop (length (calls s)) (calls s')"

definition new_logged :: "GLContext \<Rightarrow> GLContext \<Rightarrow> log_entry list" where
  "new_logged s s' = drop (length (logged s)) (logged s')"

section \<open>Terminate\<close>

definition Terminate :: "platform \<Rightarrow> GLContext \<Rightarrow> GLContext" where
  "Terminate p s =
     (let s4 =
        (if display s \<noteq> EGL_NO_DISPLAY then
           let r = eglMakeCurrent p (calls s) (display s) EGL_NO_SURFACE EGL_NO_SURFACE EGL_NO_CONTEXT;
               s1 = call (EglMakeCurrent (display s) EGL_NO_SURFACE EGL_NO_SURFACE EGL_NO_CONTEXT r) s;
               s2 = (if context s1 \<noteq> EGL_NO_CONTEXT
                     then call (EglDestroyContext (display s1) (context s1)) s1 else s1);
               s3 = (if surface s2 \<noteq> EGL_NO_SURFACE
                     then call (EglDestroySurface (display s2) (surface s2)) s2 else s2)
           in call (EglTerminate (display s3)) s3
         else s)
      in s4\<lparr>display := EGL_NO_DISPLAY, context := EGL_NO_CONTEXT,
            surface := EGL_NO_SURFACE, context_valid := False\<rparr>)"

text \<open>The resources a sequence of platform calls releases, in the order of release.\<close>

fun is_release :: "egl_call \<Rightarrow> bool" where
  "is_release (EglDestroyContext d c) = True"
| "is_release (EglDestroySurface d sf) = True"
| "is_release (EglTerminate d) = True"
| "is_release c = False"

definition releases :: "egl_call list \<Rightarrow> egl_call list" where
  "releases cs = filter is_release cs"

section \<open>UpdateScreenSize\<close>

text \<open>
  What an out-parameter holds after a query: the answer if the query succeeded, and
  what it held before otherwise.
\<close>

definition out_param :: "int option \<Rightarrow> int \<Rightarrow> int" where
  "out_param q old = (case q of None \<Rightarrow> old | Some v \<Rightarrow> v)"

definition UpdateScreenSize :: "platform \<Rightarrow> GLContext \<Rightarrow> GLContext" where
  "UpdateScreenSize p s =
     (let qw = eglQuerySurface p (calls s) (display s) (surface s) EGL_WIDTH;
          s1 = call (EglQuerySurface (display s) (surface s) EGL_WIDTH qw) s;
          new_screen_width = out_param qw 0;
          qh = eglQuerySurface p (calls s1) (display s1) (surface s1) EGL_HEIGHT;
          s2 = call (EglQuerySurface (display s1) (surface s1) EGL_HEIGHT qh) s1;
          new_screen_height = out_param qh 0
      in if new_screen_width \<noteq> screen_width s2 \<or> new_screen_height \<noteq> screen_height s2
         then LOG Info ''Window size changed to '' [new_screen_width, new_screen_height]
                (s2\<lparr>screen_width := new_screen_width, screen_height := new_screen_height\<rparr>)
         else s2)"

section \<open>InitEGLContext\<close>

definition es_versions :: "(int \<times> int) list" where
  "es_versions = [(3, 2), (3, 1), (3, 0)]"

text \<open>
  The \<^verbatim>\<open>for\<close> loop of InitEGLContext over the remaining candidates: it goes on
  while candidates remain and \<open>context_\<close> is still EGL_NO_CONTEXT.
\<close>

fun InitEGLContext_loop :: "platform \<Rightarrow> (int \<times> int) list \<Rightarrow> GLContext \<Rightarrow> GLContext" where
  "InitEGLContext_loop p [] s = s"
| "InitEGLContext_loop p (version # rest) s =
     (if context s = EGL_NO_CONTEXT then
        let s1 = s\<lparr>major_version := fst version, minor_version := snd version\<rparr>;
            c = eglCreateContext p (calls s1) (display s1) (config s1)
                  (major_version s1) (minor_version s1);
            s2 = call (EglCreateContext (display s1) (config s1)
                         (major_version s1) (minor_version s1) c) (s1\<lparr>context := c\<rparr>)
        in InitEGLContext_loop p rest s2
      else s)"

definition InitEGLContext :: "platform \<Rightarrow> GLContext \<Rightarrow> bool result \<times> GLContext" where
  "InitEGLContext p s =
     (let s1 = InitEGLContext_loop p es_versions s
      in if context s1 = EGL_NO_CONTEXT
         then LOG_ERROR_AND_THROW ''Failed to create EGLContext'' s1
         else
           let ok = eglMakeCurrent p (calls s1) (display s1) (surface s1) (surface s1) (context s1);
               s2 = call (EglMakeCurrent (display s1) (surface s1) (surface s1) (context s1) ok) s1
           in if \<not> ok
              then LOG_ERROR_AND_THROW ''Unable to eglMakeCurrent'' s2
              else (Returned True,
                    (LOG Info ''Created OpenGLES Context '' [major_version s2, minor_version s2] s2)
                      \<lparr>context_valid := True\<rparr>))"

text \<open>The creation attempts among a sequence of platform calls: version asked, handle answered.\<close>

fun create_attempts :: "egl_call list \<Rightarrow> ((int \<times> int) \<times> handle) list" where
  "create_attempts [] = []"
| "create_attempts (EglCreateContext d cfg ma mi c # cs) = ((ma, mi), c) # create_attempts cs"
| "create_attempts (other # cs) = create_attempts cs"

text \<open>Version \<open>a\<close> is newer than version \<open>b\<close>.\<close>

definition newer :: "int \<times> int \<Rightarrow> int \<times> int \<Rightarrow> bool" where
  "newer a b = (fst b < fst a \<or> (fst b = fst a \<and> snd b < snd a))"

section \<open>InitEGLSurface\<close>

text \<open>
  One \<^verbatim>\<open>eglChooseConfig\<close> call with the attribute list built from the current
  \<open>color_size_\<close> and \<open>depth_size_\<close> (the other attributes are the same constants in
  both lists of the source).
\<close>

definition chooseConfig :: "platform \<Rightarrow> GLContext \<Rightarrow> choose_result \<times> GLContext" where
  "chooseConfig p s =
     (let r = eglChooseConfig p (calls s) (display s) (color_size s) (depth_size s);
          s1 = call (EglChooseConfig (display s) (color_size s) (depth_size s) r) s
      in (r, case r of Match c \<Rightarrow> s1\<lparr>config := c\<rparr> | _ \<Rightarrow> s1))"

text \<open>
  Lines 115 to 160 of InitEGLSurface: the request with a 24-bit depth buffer and
  the fallback to 16 bits. Returns \<open>num_configs\<close>.
\<close>

definition InitEGLSurface_config :: "platform \<Rightarrow> GLContext \<Rightarrow> int result \<times> GLContext" where
  "InitEGLSurface_config p s =
     (case chooseConfig p (s\<lparr>color_size := 8, depth_size := 24\<rparr>) of
        (ChooseFailed, s1) \<Rightarrow> LOG_ERROR_AND_THROW ''Failed to choose config'' s1
      | (Match c, s1) \<Rightarrow> (Returned 1, s1)
      | (NoMatch, s1) \<Rightarrow>
          (case chooseConfig p (s1\<lparr>depth_size := 16\<rparr>) of
             (ChooseFailed, s2) \<Rightarrow> LOG_ERROR_AND_THROW ''Failed to choose 16-bit depth config'' s2
           | (Match c, s2) \<Rightarrow> (Returned 1, s2)
           | (NoMatch, s2) \<Rightarrow> (Returned 0, s2)))"

text \<open>Lines 169 to 189 of InitEGLSurface: the surface and the values cached from it.\<close>

definition InitEGLSurface_surface :: "platform \<Rightarrow> GLContext \<Rightarrow> bool result \<times> GLContext" where
  "InitEGLSurface_surface p s =
     (let sf = eglCreateWindowSurface p (calls s) (display s) (config s) (window s);
          s1 = call (EglCreateWindowSurface (display s) (config s) (window s) sf) (s\<lparr>surface := sf\<rparr>)
      in if surface s1 = EGL_NO_SURFACE
         then LOG_ERROR_AND_THROW ''Failed to create EGLSurface'' s1
         else
           let qw = eglQuerySurface p (calls s1) (display s1) (surface s1) EGL_WIDTH;
               s2 = (call (EglQuerySurface (display s1) (surface s1) EGL_WIDTH qw) s1)
                      \<lparr>screen_width := out_param qw (screen_width s1)\<rparr>;
               qh = eglQuerySurface p (calls s2) (display s2) (surface s2) EGL_HEIGHT;
               s3 = (call (EglQuerySurface (display s2) (surface s2) EGL_HEIGHT qh) s2)
                      \<lparr>screen_height := out_param qh (screen_height s2)\<rparr>;
               fmt = eglGetConfigAttrib p (calls s3) (display s3) (config s3) EGL_NATIVE_VISUAL_ID;
               s4 = call (EglGetConfigAttrib (display s3) (config s3) EGL_NATIVE_VISUAL_ID fmt) s3;
               s5 = call (ANativeWindow_setBuffersGeometry (window s4) 0 0 fmt) s4;
               mn = eglGetConfigAttrib p (calls s5) (display s5) (config s5) EGL_MIN_SWAP_INTERVAL;
               s6 = (call (EglGetConfigAttrib (display s5) (config s5) EGL_MIN_SWAP_INTERVAL mn) s5)
                      \<lparr>min_swap_interval := out_param mn (min_swap_interval s5)\<rparr>;
               mx = eglGetConfigAttrib p (calls s6) (display s6) (config s6) EGL_MAX_SWAP_INTERVAL;
               s7 = (call (EglGetConfigAttrib (display s6) (config s6) EGL_MAX_SWAP_INTERVAL mx) s6)
                      \<lparr>max_swap_interval := out_param mx (max_swap_interval s6)\<rparr>
           in (Returned True, s7))"

definition InitEGLSurface :: "platform \<Rightarrow> GLContext \<Rightarrow> bool result \<times> GLContext" where
  "InitEGLSurface p s =
     (let d = eglGetDisplay p (calls s);
          s1 = call (EglGetDisplay d) (s\<lparr>display := d\<rparr>)
      in if display s1 = EGL_NO_DISPLAY
         then LOG_ERROR_AND_THROW ''No EGL display found'' s1
         else
           let success = eglInitialize p (calls s1) (display s1);
               s2 = call (EglInitialize (display s1) success) s1
           in if \<not> success
              then LOG_ERROR_AND_THROW ''Failed to initialise EGL'' s2
              else
                (case InitEGLSurface_config p s2 of
                   (Threw e, s3) \<Rightarrow> (Threw e, s3)
                 | (Returned num_configs, s3) \<Rightarrow>
                     if num_configs = 0
                     then LOG_ERROR_AND_THROW ''Unable to retrieve EGL config'' s3
                     else InitEGLSurface_surface p
                            (LOG Info ''Chosen EGL config: '' [color_size s3, depth_size s3] s3)))"

section \<open>Init\<close>

definition AttachToCurrentEGLContext :: "platform \<Rightarrow> GLContext \<Rightarrow> unit result \<times> GLContext" where
  "AttachToCurrentEGLContext p s =
     (let c = eglGetCurrentContext p (calls s);
          s1 = call (EglGetCurrentContext c) s
      in if c = EGL_NO_CONTEXT
         then LOG_ERROR_AND_THROW ''Failed to attach to EGLContext: no active context'' s1
         else
           let s2 = s1\<lparr>context_valid := True\<rparr>;
               ma = glGetIntegerv p (calls s2) GL_MAJOR_VERSION;
               s3 = (call (GlGetIntegerv GL_MAJOR_VERSION ma) s2)
                      \<lparr>major_version := out_param ma (major_version s2)\<rparr>;
               mi = glGetIntegerv p (calls s3) GL_MINOR_VERSION;
               s4 = (call (GlGetIntegerv GL_MINOR_VERSION mi) s3)
                      \<lparr>minor_version := out_param mi (minor_version s3)\<rparr>
           in (Returned (), s4))"

definition InitGLES :: "platform \<Rightarrow> GLContext \<Rightarrow> GLContext" where
  "InitGLES p s =
     (if gles_initialized s then s
      else
        let versionStr = glGetString p (calls s);
            s1 = LOG Info (''GL Version: '' @ versionStr) [] (call (GlGetString versionStr) s);
            s2 = call LoadGLFunctions s1;
            s3 = call (GlEnable GL_FRAMEBUFFER_SRGB) s2;
            e = glGetError p (calls s3);
            s4 = call (GlGetError e) s3;
            s5 = (if e \<noteq> GL_NO_ERROR
                  then LOG Error ''Failed to enable SRGB framebuffers'' [] s4 else s4)
        in s5\<lparr>gles_initialized := True\<rparr>)"

text \<open>Lines 285 to 291 of Init: the debug-message callback, when the entry point was loaded.\<close>

definition Init_debug :: "platform \<Rightarrow> GLContext \<Rightarrow> GLContext" where
  "Init_debug p s =
     (if glDebugMessageCallback p (calls s) then
        let s1 = call (GlEnable GL_DEBUG_OUTPUT_SYNCHRONOUS) s;
            s2 = call GlDebugMessageCallback s1;
            e = glGetError p (calls s2);
            s3 = call (GlGetError e) s2
        in if e \<noteq> GL_NO_ERROR then LOG Error ''Failed to enable debug messages'' [] s3 else s3
      else s)"

definition Init :: "platform \<Rightarrow> handle \<Rightarrow> GLContext \<Rightarrow> bool result \<times> GLContext" where
  "Init p w s =
     (if egl_context_initialized s then (Returned True, s)
      else
        let s1 = s\<lparr>window := w\<rparr>;
            r = (if w \<noteq> nullptr then
                   (case InitEGLSurface p s1 of
                      (Threw e, s2) \<Rightarrow> (Threw e, s2)
                    | (Returned b, s2) \<Rightarrow>
                        (case InitEGLContext p s2 of
                           (Threw e, s3) \<Rightarrow> (Threw e, s3)
                         | (Returned b', s3) \<Rightarrow> (Returned (), s3)))
                 else AttachToCurrentEGLContext p s1)
        in case r of
             (Threw e, s3) \<Rightarrow> (Threw e, s3)
           | (Returned u, s3) \<Rightarrow>
               (Returned True, (Init_debug p (InitGLES p s3))\<lparr>egl_context_initialized := True\<rparr>))"

text \<open>
  The capability descriptor, and FillDeviceCaps writing the device type and the
  recorded version into it.
\<close>

datatype render_device_type = RENDER_DEVICE_TYPE_UNDEFINED | RENDER_DEVICE_TYPE_GLES

record DeviceCaps =
  DevType :: render_device_type
  MajorVersion :: int
  MinorVersion :: int

definition FillDeviceCaps :: "GLContext \<Rightarrow> DeviceCaps \<Rightarrow> DeviceCaps" where
  "FillDeviceCaps s deviceCaps =
     deviceCaps\<lparr>DevType := RENDER_DEVICE_TYPE_GLES,
                MajorVersion := major_version s, MinorVersion := minor_version s\<rparr>"

text \<open>A capability descriptor that nothing has been written to yet.\<close>

definition blank_caps :: DeviceCaps where
  "blank_caps = \<lparr>DevType = RENDER_DEVICE_TYPE_UNDEFINED, MajorVersion = 0, MinorVersion = 0\<rparr>"

text \<open>
  The constructor: \<open>raw\<close> is the object before construction; the member
  initialiser list sets seven fields, the others keep what \<open>raw\<close> holds.
\<close>

definition GLContext_ctor ::
    "platform \<Rightarrow> handle \<Rightarrow> DeviceCaps \<Rightarrow> GLContext \<Rightarrow> DeviceCaps result \<times> GLContext" where
  "GLContext_ctor p NativeWindow deviceCaps raw =
     (case Init p NativeWindow
             (raw\<lparr>display := EGL_NO_DISPLAY, surface := EGL_NO_SURFACE, context := EGL_NO_CONTEXT,
                  egl_context_initialized := False, gles_initialized := False,
                  major_version := 0, minor_version := 0\<rparr>) of
        (Threw e, s) \<Rightarrow> (Threw e, s)
      | (Returned b, s) \<Rightarrow> (Returned (FillDeviceCaps s deviceCaps), s))"

section \<open>SwapBuffers (Present)\<close>

definition SwapBuffers :: "platform \<Rightarrow> int \<Rightarrow> GLContext \<Rightarrow> unit result \<times> GLContext" where
  "SwapBuffers p SwapInterval s =
     (if surface s = EGL_NO_SURFACE
      then (Returned (),
            LOG Warning ''No EGL surface when swapping buffers. This happens when SwapBuffers() is called after Suspend(). The operation will be ignored.'' [] s)
      else
        let SwapInterval1 = max SwapInterval (min_swap_interval s);
            SwapInterval2 = min SwapInterval1 (max_swap_interval s);
            s1 = call (EglSwapInterval (display s) SwapInterval2) s;
            b = eglSwapBuffers p (calls s1) (display s1) (surface s1);
            s2 = call (EglSwapBuffers (display s1) (surface s1) b) s1
        in if \<not> b then
             let err = eglGetError p (calls s2);
                 s3 = call (EglGetError err) s2
             in if err = EGL_BAD_SURFACE then
                  (case InitEGLSurface p
                          (LOG Info ''EGL surface has been lost. Attempting to recreate'' [] s3) of
                     (Returned r, s4) \<Rightarrow> (Returned (), s4)
                   | (Threw e, s4) \<Rightarrow>
                       (Returned (), LOG Error ''Failed to recreate EGL surface'' [] s4))
                else if err = EGL_CONTEXT_LOST \<or> err = EGL_BAD_CONTEXT then
                  (case InitEGLContext p (Terminate p (s3\<lparr>context_valid := False\<rparr>)) of
                     (Returned r, s4) \<Rightarrow> (Returned (), s4)
                   | (Threw e, s4) \<Rightarrow> (Threw e, s4))
                else (Returned (), s3)
           else (Returned (), s2))"

text \<open>The warning SwapBuffers logs when there is no surface.\<close>

definition no_surface_warning :: string where
  "no_surface_warning = ''No EGL surface when swapping buffers. This happens when SwapBuffers() is called after Suspend(). The operation will be ignored.''"

text \<open>The error line SwapBuffers logs when it has caught a failed surface re-creation.\<close>

definition recreate_failed :: log_entry where
  "recreate_failed = Log Error ''Failed to recreate EGL surface'' []"

text \<open>The swap intervals handed to the platform among a sequence of platform calls.\<close>

fun applied_intervals :: "egl_call list \<Rightarrow> int list" where
  "applied_intervals [] = []"
| "applied_intervals (EglSwapInterval d i # cs) = i # applied_intervals cs"
| "applied_intervals (other # cs) = applied_intervals cs"

text \<open>
  The error code Present reads after the buffer swap: \<open>None\<close> when there is no
  surface or the swap succeeds, otherwise the answer of \<^verbatim>\<open>eglGetError\<close>.
\<close>

definition swap_failure :: "platform \<Rightarrow> int \<Rightarrow> GLContext \<Rightarrow> int option" where
  "swap_failure p SwapInterval s =
     (if surface s = EGL_NO_SURFACE then None
      else
        let i = min (max SwapInterval (min_swap_interval s)) (max_swap_interval s);
            h1 = calls s @ [EglSwapInterval (display s) i];
            b = eglSwapBuffers p h1 (display s) (surface s)
        in if b then None
           else Some (eglGetError p (h1 @ [EglSwapBuffers (display s) (surface s) b])))"

text \<open>
  The platform calls Present makes up to and including the read of the error code:
  the interval, the swap, and \<^verbatim>\<open>eglGetError\<close> when the swap failed.
\<close>

definition swap_calls :: "platform \<Rightarrow> int \<Rightarrow> GLContext \<Rightarrow> egl_call list" where
  "swap_calls p r s =
     (let i = min (max r (min_swap_interval s)) (max_swap_interval s);
          h1 = calls s @ [EglSwapInterval (display s) i];
          b = eglSwapBuffers p h1 (display s) (surface s)
      in [EglSwapInterval (display s) i, EglSwapBuffers (display s) (surface s) b]
         @ (if b then [] else [EglGetError (eglGetError p (h1 @ [EglSwapBuffers (display s) (surface s) b]))]))"

text \<open>The answers to \<^verbatim>\<open>eglChooseConfig\<close> among a sequence of platform calls.\<close>

fun chosen_configs :: "egl_call list \<Rightarrow> choose_result list" where
  "chosen_configs [] = []"
| "chosen_configs (EglChooseConfig d cs ds r # cs') = r # chosen_configs cs'"
| "chosen_configs (other # cs') = chosen_configs cs'"

text \<open>
  The specification's \<open>clamp(r, min, max)\<close>, for bounds with \<open>min \<le> max\<close>:
  \<open>min\<close> below the range, \<open>max\<close> above it, \<open>r\<close> itself inside.
\<close>

definition clamp :: "int \<Rightarrow> int \<Rightarrow> int \<Rightarrow> int" where
  "clamp r lo hi = (if r < lo then lo else if hi < r then hi else r)"

section \<open>Suspend, Resume, Invalidate\<close>

definition Suspend :: "platform \<Rightarrow> GLContext \<Rightarrow> GLContext" where
  "Suspend p s0 =
     (let s = LOG Info ''Suspending gl context'' [] s0
      in if surface s \<noteq> EGL_NO_SURFACE
         then (call (EglDestroySurface (display s) (surface s))
                 (LOG Info ''Destroying egl surface'' [] s))\<lparr>surface := EGL_NO_SURFACE\<rparr>
         else s)"

text \<open>Lines 417 to 435 of Resume: what follows a failed make-current.\<close>

definition Resume_recover :: "platform \<Rightarrow> GLContext \<Rightarrow> int result \<times> GLContext" where
  "Resume_recover p s =
     (let err = eglGetError p (calls s);
          s1 = LOG Warning ''Unable to eglMakeCurrent '' [err] (call (EglGetError err) s)
      in if err = EGL_CONTEXT_LOST then
           (case InitEGLContext p (LOG Info ''Re-creating egl context'' [] s1) of
              (Threw e, s2) \<Rightarrow> (Threw e, s2)
            | (Returned b, s2) \<Rightarrow> (Returned err, s2))
         else
           (case InitEGLSurface p
                   (Terminate p (LOG Info ''Re-creating egl context and surface'' [] s1)) of
              (Threw e, s2) \<Rightarrow> (Threw e, s2)
            | (Returned b, s2) \<Rightarrow>
                (case InitEGLContext p s2 of
                   (Threw e, s3) \<Rightarrow> (Threw e, s3)
                 | (Returned b', s3) \<Rightarrow> (Returned err, s3))))"

text \<open>
  Lines 410 to 414 of Resume: the surface is created against the cached configuration,
  the screen size refreshed, and the context made current. Returns whether
  \<^verbatim>\<open>eglMakeCurrent\<close> answered EGL_TRUE.
\<close>

definition Resume_attempt :: "platform \<Rightarrow> handle \<Rightarrow> GLContext \<Rightarrow> bool \<times> GLContext" where
  "Resume_attempt p w s =
     (let s1 = s\<lparr>window := w\<rparr>;
          sf = eglCreateWindowSurface p (calls s1) (display s1) (config s1) (window s1);
          s2 = call (EglCreateWindowSurface (display s1) (config s1) (window s1) sf)
                 (s1\<lparr>surface := sf\<rparr>);
          s3 = UpdateScreenSize p s2;
          ok = eglMakeCurrent p (calls s3) (display s3) (surface s3) (surface s3) (context s3);
          s4 = call (EglMakeCurrent (display s3) (surface s3) (surface s3) (context s3) ok) s3
      in (ok, s4))"

definition Resume :: "platform \<Rightarrow> handle \<Rightarrow> GLContext \<Rightarrow> int result \<times> GLContext" where
  "Resume p w s0 =
     (let s = LOG Info ''Resuming gl context'' [] s0
      in if egl_context_initialized s = False then
           (case Init p w s of
              (Threw e, s1) \<Rightarrow> (Threw e, s1)
            | (Returned b, s1) \<Rightarrow> (Returned EGL_SUCCESS, s1))
         else
           (case Resume_attempt p w s of
              (True, s4) \<Rightarrow> (Returned EGL_SUCCESS, s4)
            | (False, s4) \<Rightarrow> Resume_recover p s4))"

definition Invalidate :: "platform \<Rightarrow> GLContext \<Rightarrow> bool \<times> GLContext" where
  "Invalidate p s =
     (True, (Terminate p (LOG Info ''Invalidating gl context'' [] s))
              \<lparr>egl_context_initialized := False\<rparr>)"

text \<open>A creation attempt as the platform call that InitEGLContext makes for it in state \<open>s\<close>.\<close>

definition attempt_call :: "GLContext \<Rightarrow> (int \<times> int) \<times> handle \<Rightarrow> egl_call" where
  "attempt_call s a = EglCreateContext (display s) (config s) (fst (fst a)) (snd (fst a)) (snd a)"

section \<open>Concrete platforms and states\<close>

text \<open>
  A platform on which everything succeeds on a live display and, as EGL requires,
  every call on EGL_NO_DISPLAY fails.
\<close>

definition steady :: platform where
  "steady =
     \<lparr>eglGetDisplay = (\<lambda>h. 1),
      eglInitialize = (\<lambda>h d. d \<noteq> 0),
      eglChooseConfig = (\<lambda>h d cs ds. if d = 0 then ChooseFailed else Match 5),
      eglCreateWindowSurface = (\<lambda>h d cfg w. if d = 0 then 0 else 2),
      eglQuerySurface = (\<lambda>h d sf a. if d = 0 \<or> sf = 0 then None
                          else Some (case a of EGL_WIDTH \<Rightarrow> 1080 | EGL_HEIGHT \<Rightarrow> 1920)),
      eglGetConfigAttrib = (\<lambda>h d cfg a. if d = 0 then None
                          else Some (case a of EGL_NATIVE_VISUAL_ID \<Rightarrow> 1
                                     | EGL_MIN_SWAP_INTERVAL \<Rightarrow> 0 | EGL_MAX_SWAP_INTERVAL \<Rightarrow> 4)),
      eglCreateContext = (\<lambda>h d cfg ma mi. if d = 0 then 0 else 3),
      eglMakeCurrent = (\<lambda>h d dr rd c. d \<noteq> 0),
      eglGetCurrentContext = (\<lambda>h. 3),
      eglGetError = (\<lambda>h. 0x3000),
      eglSwapBuffers = (\<lambda>h d sf. d \<noteq> 0 \<and> sf \<noteq> 0),
      glGetString = (\<lambda>h. ''OpenGL ES 3.2''),
      glGetError = (\<lambda>h. 0),
      glGetIntegerv = (\<lambda>h n. Some (case n of GL_MAJOR_VERSION \<Rightarrow> 3 | GL_MINOR_VERSION \<Rightarrow> 2)),
      glDebugMessageCallback = (\<lambda>h. True)\<rparr>"

text \<open>The platform accepts version 3.0 only.\<close>

definition lowest_only :: platform where
  "lowest_only =
     steady\<lparr>eglCreateContext := (\<lambda>h d cfg ma mi. if d \<noteq> 0 \<and> (ma, mi) = (3, 0) then 3 else 0)\<rparr>"

text \<open>Every buffer swap fails and the error read back is EGL_CONTEXT_LOST.\<close>

definition context_losing :: platform where
  "context_losing = steady\<lparr>eglSwapBuffers := (\<lambda>h d sf. False), eglGetError := (\<lambda>h. 0x300E)\<rparr>"

text \<open>Every buffer swap fails and the error read back is EGL_BAD_CONTEXT.\<close>

definition context_rejecting :: platform where
  "context_rejecting = steady\<lparr>eglSwapBuffers := (\<lambda>h d sf. False), eglGetError := (\<lambda>h. 0x3006)\<rparr>"

text \<open>
  Every buffer swap fails with EGL_BAD_SURFACE, and constraint matching now answers
  configuration 9.
\<close>

definition surface_losing :: platform where
  "surface_losing =
     steady\<lparr>eglSwapBuffers := (\<lambda>h d sf. False), eglGetError := (\<lambda>h. 0x300D),
            eglChooseConfig := (\<lambda>h d cs ds. if d = 0 then ChooseFailed else Match 9)\<rparr>"

text \<open>
  Every buffer swap fails with EGL_BAD_SURFACE, and no configuration with a 24-bit
  depth buffer matches any more: the 16-bit fallback answers configuration 6.
\<close>

definition surface_losing_16 :: platform where
  "surface_losing_16 =
     steady\<lparr>eglSwapBuffers := (\<lambda>h d sf. False), eglGetError := (\<lambda>h. 0x300D),
            eglChooseConfig := (\<lambda>h d cs ds. if d = 0 then ChooseFailed
                                             else if ds = 24 then NoMatch else Match 6)\<rparr>"

text \<open>
  Make-current on a surface fails with EGL_BAD_ALLOC (0x3003) until the display
  connection has been terminated once; afterwards it succeeds.
\<close>

definition stale_display :: platform where
  "stale_display =
     steady\<lparr>eglMakeCurrent := (\<lambda>h d dr rd c. d \<noteq> 0 \<and> (dr = 0 \<or> EglTerminate d \<in> set h)),
            eglGetError := (\<lambda>h. 0x3003)\<rparr>"

text \<open>
  Make-current on a surface fails with EGL_BAD_ALLOC and no context can be created:
  a Resume on this platform tears everything down, re-creates display and surface,
  and raises from InitEGLContext.
\<close>

definition exhausted :: platform where
  "exhausted =
     steady\<lparr>eglMakeCurrent := (\<lambda>h d dr rd c. d \<noteq> 0 \<and> dr = 0),
            eglGetError := (\<lambda>h. 0x3003),
            eglCreateContext := (\<lambda>h d cfg ma mi. 0)\<rparr>"

text \<open>Every buffer swap fails with EGL_BAD_SURFACE and no window surface can be created.\<close>

definition surface_gone :: platform where
  "surface_gone =
     steady\<lparr>eglSwapBuffers := (\<lambda>h d sf. False), eglGetError := (\<lambda>h. 0x300D),
            eglCreateWindowSurface := (\<lambda>h d cfg w. 0)\<rparr>"

text \<open>An initialised manager with a live display, surface and context.\<close>

definition live :: GLContext where
  "live =
     \<lparr>display = 1, surface = 2, context = 3, config = 5, window = 7,
      color_size = 8, depth_size = 24, screen_width = 1080, screen_height = 1920,
      min_swap_interval = 0, max_swap_interval = 4, major_version = 3, minor_version = 2,
      context_valid = True, egl_context_initialized = True, gles_initialized = True,
      calls = [], logged = []\<rparr>"

text \<open>The live manager with the cached screen size of the other orientation.\<close>

definition rotated :: GLContext where
  "rotated = live\<lparr>screen_width := 1920, screen_height := 1080\<rparr>"

text \<open>
  An initialised manager whose last Resume re-created display and surface and then
  failed to create a context: display and surface are live, the context is not.
\<close>

definition contextless :: GLContext where
  "contextless = live\<lparr>context := 0, context_valid := False, minor_version := 0\<rparr>"

text \<open>A manager after Invalidate: all handles at their sentinels, not initialised.\<close>

definition invalidated :: GLContext where
  "invalidated =
     live\<lparr>display := 0, surface := 0, context := 0, context_valid := False,
          egl_context_initialized := False\<rparr>"

section \<open>Auxiliary facts\<close>

text \<open>How the recorded calls and log lines decompose, and how \<open>call\<close> and \<open>LOG\<close> act on the fields.\<close>

lemma new_calls_append [simp]: "new_calls s (s\<lparr>calls := calls s @ cs\<rparr>) = cs"
  by (simp add: new_calls_def)

lemma new_calls_self [simp]: "new_calls s s = []"
  by (simp add: new_calls_def)

lemma applied_intervals_append [simp]:
  "applied_intervals (xs @ ys) = applied_intervals xs @ applied_intervals ys"
  by (induction xs rule: applied_intervals.induct) simp_all

lemma create_attempts_append [simp]:
  "create_attempts (xs @ ys) = create_attempts xs @ create_attempts ys"
  by (induction xs rule: create_attempts.induct) simp_all

lemma chosen_configs_append [simp]:
  "chosen_configs (xs @ ys) = chosen_configs xs @ chosen_configs ys"
  by (induction xs rule: chosen_configs.induct) simp_all

lemma call_sel [simp]:
  "display (call c s) = display s"
  "surface (call c s) = surface s"
  "context (call c s) = context s"
  "config (call c s) = config s"
  "window (call c s) = window s"
  "color_size (call c s) = color_size s"
  "depth_size (call c s) = depth_size s"
  "screen_width (call c s) = screen_width s"
  "screen_height (call c s) = screen_height s"
  "min_swap_interval (call c s) = min_swap_interval s"
  "max_swap_interval (call c s) = max_swap_interval s"
  "major_version (call c s) = major_version s"
  "minor_version (call c s) = minor_version s"
  "context_valid (call c s) = context_valid s"
  "egl_context_initialized (call c s) = egl_context_initialized s"
  "gles_initialized (call c s) = gles_initialized s"
  "calls (call c s) = calls s @ [c]"
  "logged (call c s) = logged s"
  by (simp_all add: call_def)

lemma LOG_sel [simp]:
  "display (LOG sev msg args s) = display s"
  "surface (LOG sev msg args s) = surface s"
  "context (LOG sev msg args s) = context s"
  "config (LOG sev msg args s) = config s"
  "window (LOG sev msg args s) = window s"
  "color_size (LOG sev msg args s) = color_size s"
  "depth_size (LOG sev msg args s) = depth_size s"
  "screen_width (LOG sev msg args s) = screen_width s"
  "screen_height (LOG sev msg args s) = screen_height s"
  "min_swap_interval (LOG sev msg args s) = min_swap_interval s"
  "max_swap_interval (LOG sev msg args s) = max_swap_interval s"
  "major_version (LOG sev msg args s) = major_version s"
  "minor_version (LOG sev msg args s) = minor_version s"
  "context_valid (LOG sev msg args s) = context_valid s"
  "egl_context_initialized (LOG sev msg args s) = egl_context_initialized s"
  "gles_initialized (LOG sev msg args s) = gles_initialized s"
  "calls (LOG sev msg args s) = calls s"
  "logged (LOG sev msg args s) = logged s @ [Log sev msg args]"
  by (simp_all add: LOG_def)

lemma LOG_ERROR_AND_THROW_sel [simp]:
  "fst (LOG_ERROR_AND_THROW msg s) = Threw msg"
  "snd (LOG_ERROR_AND_THROW msg s) = LOG Error msg [] s"
  by (simp_all add: LOG_ERROR_AND_THROW_def)

lemmas witness_defs = steady_def lowest_only_def context_losing_def context_rejecting_def
  surface_losing_def surface_losing_16_def stale_display_def live_def contextless_def
  invalidated_def rotated_def exhausted_def surface_gone_def

lemmas surface_defs = InitEGLSurface_def InitEGLSurface_config_def InitEGLSurface_surface_def
  chooseConfig_def

subsection \<open>The two halves of InitEGLSurface\<close>

lemma InitEGLSurface_config_props:
  assumes "InitEGLSurface_config p s = (r, s')"
  shows "display s' = display s \<and> surface s' = surface s \<and> context s' = context s
       \<and> window s' = window s \<and> context_valid s' = context_valid s
       \<and> major_version s' = major_version s \<and> minor_version s' = minor_version s
       \<and> egl_context_initialized s' = egl_context_initialized s
       \<and> gles_initialized s' = gles_initialized s
       \<and> (\<exists>cs. calls s' = calls s @ cs \<and> applied_intervals cs = [] \<and> create_attempts cs = []
            \<and> chosen_configs cs \<noteq> []
            \<and> (\<forall>n. r = Returned n \<and> n \<noteq> 0 \<longrightarrow> last (chosen_configs cs) = Match (config s')))
       \<and> (\<forall>n. r = Returned n \<longrightarrow> logged s' = logged s)
       \<and> (\<forall>e. r = Threw e \<longrightarrow> logged s' = logged s @ [Log Error e []])"
  using assms
  by (auto simp add: InitEGLSurface_config_def chooseConfig_def Let_def call_def LOG_def
        LOG_ERROR_AND_THROW_def split: choose_result.splits)

lemma InitEGLSurface_surface_props:
  assumes "InitEGLSurface_surface p s = (r, s')"
  shows "display s' = display s \<and> config s' = config s \<and> context s' = context s
       \<and> window s' = window s \<and> context_valid s' = context_valid s
       \<and> major_version s' = major_version s \<and> minor_version s' = minor_version s
       \<and> egl_context_initialized s' = egl_context_initialized s
       \<and> gles_initialized s' = gles_initialized s
       \<and> (\<exists>cs. calls s' = calls s
               @ EglCreateWindowSurface (display s) (config s) (window s) (surface s') # cs
            \<and> applied_intervals cs = [] \<and> create_attempts cs = [] \<and> chosen_configs cs = [])
       \<and> (\<forall>b. r = Returned b \<longrightarrow> b \<and> surface s' \<noteq> EGL_NO_SURFACE \<and> logged s' = logged s)
       \<and> (\<forall>e. r = Threw e \<longrightarrow> logged s' = logged s @ [Log Error e []])"
  using assms
  by (auto simp add: InitEGLSurface_surface_def Let_def call_def LOG_def
        LOG_ERROR_AND_THROW_def split: if_splits)

subsection \<open>InitEGLSurface\<close>

lemma InitEGLSurface_props:
  assumes R: "InitEGLSurface p s = (r, s')"
  shows "context s' = context s \<and> window s' = window s \<and> context_valid s' = context_valid s
       \<and> major_version s' = major_version s \<and> minor_version s' = minor_version s
       \<and> egl_context_initialized s' = egl_context_initialized s
       \<and> gles_initialized s' = gles_initialized s
       \<and> (\<exists>cs. calls s' = calls s @ cs \<and> applied_intervals cs = [] \<and> create_attempts cs = []
            \<and> (\<forall>b. r = Returned b \<longrightarrow>
                  chosen_configs cs \<noteq> [] \<and> last (chosen_configs cs) = Match (config s')
                  \<and> EglCreateWindowSurface (display s') (config s') (window s) (surface s')
                       \<in> set cs))
       \<and> (\<forall>b. r = Returned b \<longrightarrow>
           b \<and> display s' \<noteq> EGL_NO_DISPLAY \<and> surface s' \<noteq> EGL_NO_SURFACE
           \<and> (\<exists>c d. new_logged s s' = [Log Info ''Chosen EGL config: '' [c, d]]))
       \<and> (\<forall>e. r = Threw e \<longrightarrow>
             new_logged s s' \<noteq> [] \<and> last (new_logged s s') = Log Error e [])
       \<and> logged s' = logged s @ new_logged s s'"
proof -
  let ?d = "eglGetDisplay p (calls s)"
  let ?s1 = "call (EglGetDisplay ?d) (s\<lparr>display := ?d\<rparr>)"
  let ?ok = "eglInitialize p (calls ?s1) (display ?s1)"
  let ?s2 = "call (EglInitialize (display ?s1) ?ok) ?s1"
  show ?thesis
  proof (cases "?d = EGL_NO_DISPLAY")
    case True
    with R have "r = Threw ''No EGL display found''"
      "s' = LOG Error ''No EGL display found'' [] ?s1"
      by (simp_all add: InitEGLSurface_def Let_def LOG_ERROR_AND_THROW_def call_def)
    then show ?thesis by (simp add: new_logged_def)
  next
    case d: False
    show ?thesis
    proof (cases ?ok)
      case False
      with R d have "r = Threw ''Failed to initialise EGL''"
        "s' = LOG Error ''Failed to initialise EGL'' [] ?s2"
        by (simp_all add: InitEGLSurface_def Let_def LOG_ERROR_AND_THROW_def call_def)
      then show ?thesis by (simp add: new_logged_def)
    next
      case ok: True
      obtain rc s3 where C: "InitEGLSurface_config p ?s2 = (rc, s3)"
        by (cases "InitEGLSurface_config p ?s2")
      from InitEGLSurface_config_props [OF C] obtain cs1 where
        c: "display s3 = ?d" "context s3 = context s" "window s3 = window s"
           "context_valid s3 = context_valid s" "major_version s3 = major_version s"
           "minor_version s3 = minor_version s"
           "egl_context_initialized s3 = egl_context_initialized s"
           "gles_initialized s3 = gles_initialized s"
           "calls s3 = calls s @ [EglGetDisplay ?d, EglInitialize ?d True] @ cs1"
           "applied_intervals cs1 = []" "create_attempts cs1 = []" "chosen_configs cs1 \<noteq> []"
           "\<forall>n. rc = Returned n \<and> n \<noteq> 0 \<longrightarrow> last (chosen_configs cs1) = Match (config s3)"
           "\<forall>n. rc = Returned n \<longrightarrow> logged s3 = logged s"
           "\<forall>e. rc = Threw e \<longrightarrow> logged s3 = logged s @ [Log Error e []]"
        using ok by (auto simp add: call_def)
      from R d ok C have E: "(r, s') =
          (case rc of Threw e \<Rightarrow> (Threw e, s3)
           | Returned n \<Rightarrow>
               if n = 0 then LOG_ERROR_AND_THROW ''Unable to retrieve EGL config'' s3
               else InitEGLSurface_surface p
                      (LOG Info ''Chosen EGL config: '' [color_size s3, depth_size s3] s3))"
        by (simp add: InitEGLSurface_def Let_def split: result.splits)
      show ?thesis
      proof (cases rc)
        case (Threw e)
        with E c show ?thesis by (simp add: new_logged_def)
      next
        case (Returned n)
        show ?thesis
        proof (cases "n = 0")
          case True
          with E Returned c show ?thesis by (simp add: LOG_ERROR_AND_THROW_def new_logged_def)
        next
          case False
          let ?s3' = "LOG Info ''Chosen EGL config: '' [color_size s3, depth_size s3] s3"
          from E Returned False have S: "InitEGLSurface_surface p ?s3' = (r, s')" by simp
          from InitEGLSurface_surface_props [OF S] obtain cs2 where
            f: "display s' = display s3" "config s' = config s3" "context s' = context s3"
               "window s' = window s3" "context_valid s' = context_valid s3"
               "major_version s' = major_version s3" "minor_version s' = minor_version s3"
               "egl_context_initialized s' = egl_context_initialized s3"
               "gles_initialized s' = gles_initialized s3"
               "calls s' = calls s3
                  @ EglCreateWindowSurface (display s3) (config s3) (window s3) (surface s') # cs2"
               "applied_intervals cs2 = []" "create_attempts cs2 = []" "chosen_configs cs2 = []"
               "\<forall>b. r = Returned b \<longrightarrow> b \<and> surface s' \<noteq> EGL_NO_SURFACE
                   \<and> logged s' = logged s3 @ [Log Info ''Chosen EGL config: '' [color_size s3, depth_size s3]]"
               "\<forall>e. r = Threw e \<longrightarrow> logged s' = logged s3
                   @ [Log Info ''Chosen EGL config: '' [color_size s3, depth_size s3]] @ [Log Error e []]"
            by (auto simp add: LOG_def)
          from c Returned False have c': "logged s3 = logged s"
            "last (chosen_configs cs1) = Match (config s3)" by simp_all
          show ?thesis
            using d c(1-12) c' f by (cases r) (simp_all add: new_logged_def)
        qed
      qed
    qed
  qed
qed

subsection \<open>The negotiation loop\<close>

lemma InitEGLContext_loop_live [simp]:
  "context s \<noteq> EGL_NO_CONTEXT \<Longrightarrow> InitEGLContext_loop p vs s = s"
  by (cases vs) simp_all

lemma InitEGLContext_loop_frame:
  "display (InitEGLContext_loop p vs s) = display s
   \<and> surface (InitEGLContext_loop p vs s) = surface s
   \<and> config (InitEGLContext_loop p vs s) = config s
   \<and> window (InitEGLContext_loop p vs s) = window s
   \<and> context_valid (InitEGLContext_loop p vs s) = context_valid s
   \<and> logged (InitEGLContext_loop p vs s) = logged s
   \<and> min_swap_interval (InitEGLContext_loop p vs s) = min_swap_interval s
   \<and> max_swap_interval (InitEGLContext_loop p vs s) = max_swap_interval s
   \<and> screen_width (InitEGLContext_loop p vs s) = screen_width s
   \<and> screen_height (InitEGLContext_loop p vs s) = screen_height s
   \<and> egl_context_initialized (InitEGLContext_loop p vs s) = egl_context_initialized s
   \<and> gles_initialized (InitEGLContext_loop p vs s) = gles_initialized s"
  by (induction vs arbitrary: s) (simp_all add: Let_def)

lemma create_attempts_attempt_calls [simp]:
  "create_attempts (map (attempt_call s) att) = att"
  by (induction att) (simp_all add: attempt_call_def)

lemma applied_intervals_attempt_calls [simp]:
  "applied_intervals (map (attempt_call s) att) = []"
  by (induction att) (simp_all add: attempt_call_def)

lemma chosen_configs_attempt_calls [simp]:
  "chosen_configs (map (attempt_call s) att) = []"
  by (induction att) (simp_all add: attempt_call_def)

lemma InitEGLContext_loop_attempts:
  assumes "context s = EGL_NO_CONTEXT" and "vs \<noteq> []"
  shows "\<exists>att. calls (InitEGLContext_loop p vs s) = calls s @ map (attempt_call s) att
           \<and> att \<noteq> [] \<and> map fst att = take (length att) vs
           \<and> (\<forall>a \<in> set (butlast att). snd a = EGL_NO_CONTEXT)
           \<and> (\<forall>a \<in> set att. \<exists>h. snd a = eglCreateContext p h (display s) (config s)
                                          (fst (fst a)) (snd (fst a)))
           \<and> snd (last att) = context (InitEGLContext_loop p vs s)
           \<and> fst (last att) = (major_version (InitEGLContext_loop p vs s),
                               minor_version (InitEGLContext_loop p vs s))
           \<and> (context (InitEGLContext_loop p vs s) = EGL_NO_CONTEXT \<longrightarrow> length att = length vs)"
  using assms
proof (induction vs arbitrary: s)
  case Nil
  then show ?case by simp
next
  case (Cons v vs)
  define c where "c = eglCreateContext p (calls s) (display s) (config s) (fst v) (snd v)"
  define s2 where "s2 = call (EglCreateContext (display s) (config s) (fst v) (snd v) c)
                          (s\<lparr>major_version := fst v, minor_version := snd v, context := c\<rparr>)"
  have step: "InitEGLContext_loop p (v # vs) s = InitEGLContext_loop p vs s2"
    using Cons.prems(1) by (simp add: Let_def s2_def c_def)
  have s2: "calls s2 = calls s @ [attempt_call s ((fst v, snd v), c)]" "context s2 = c"
    "major_version s2 = fst v" "minor_version s2 = snd v" "display s2 = display s"
    "config s2 = config s"
    by (simp_all add: s2_def attempt_call_def)
  have ac: "attempt_call s2 = attempt_call s"
    by (rule ext) (simp add: attempt_call_def s2)
  show ?case
  proof (cases "c = EGL_NO_CONTEXT \<and> vs \<noteq> []")
    case True
    with Cons.IH [of s2] s2 obtain att where att:
      "calls (InitEGLContext_loop p vs s2) = calls s2 @ map (attempt_call s2) att"
      "att \<noteq> []" "map fst att = take (length att) vs"
      "\<forall>a \<in> set (butlast att). snd a = EGL_NO_CONTEXT"
      "\<forall>a \<in> set att. \<exists>h. snd a = eglCreateContext p h (display s2) (config s2)
                                          (fst (fst a)) (snd (fst a))"
      "snd (last att) = context (InitEGLContext_loop p vs s2)"
      "fst (last att) = (major_version (InitEGLContext_loop p vs s2),
                         minor_version (InitEGLContext_loop p vs s2))"
      "context (InitEGLContext_loop p vs s2) = EGL_NO_CONTEXT \<longrightarrow> length att = length vs"
      by blast
    let ?att = "(v, c) # att"
    have "calls (InitEGLContext_loop p (v # vs) s) = calls s @ map (attempt_call s) ?att"
      unfolding step using att(1) s2(1) by (simp add: ac)
    moreover have "\<forall>a \<in> set ?att. \<exists>h. snd a = eglCreateContext p h (display s) (config s)
                                          (fst (fst a)) (snd (fst a))"
      using att(5) s2 c_def by auto
    moreover have "\<forall>a \<in> set (butlast ?att). snd a = EGL_NO_CONTEXT"
      using att(2,4) True by simp
    ultimately show ?thesis
      unfolding step using att(2,3,6,7,8) by (intro exI [of _ ?att]) simp
  next
    case False
    then have stop: "InitEGLContext_loop p vs s2 = s2"
      using s2(2) by (cases vs) auto
    let ?att = "[(v, c)]"
    have "\<exists>h. c = eglCreateContext p h (display s) (config s) (fst v) (snd v)"
      using c_def by blast
    then show ?thesis
      unfolding step stop using False s2 by (intro exI [of _ ?att]) auto
  qed
qed

subsection \<open>InitEGLContext\<close>

lemma InitEGLContext_props:
  assumes R: "InitEGLContext p s = (r, s')"
  shows "display s' = display s \<and> surface s' = surface s \<and> config s' = config s
       \<and> window s' = window s
       \<and> egl_context_initialized s' = egl_context_initialized s
       \<and> gles_initialized s' = gles_initialized s
       \<and> context s' = context (InitEGLContext_loop p es_versions s)
       \<and> major_version s' = major_version (InitEGLContext_loop p es_versions s)
       \<and> minor_version s' = minor_version (InitEGLContext_loop p es_versions s)
       \<and> (\<exists>mc. calls s' = calls (InitEGLContext_loop p es_versions s) @ mc
              \<and> create_attempts mc = [] \<and> applied_intervals mc = [] \<and> chosen_configs mc = [])
       \<and> (\<forall>b. r = Returned b \<longrightarrow> b \<and> context s' \<noteq> EGL_NO_CONTEXT \<and> context_valid s'
              \<and> new_logged s s'
                  = [Log Info ''Created OpenGLES Context '' [major_version s', minor_version s']])
       \<and> (\<forall>e. r = Threw e \<longrightarrow> context_valid s' = context_valid s
              \<and> new_logged s s' = [Log Error e []]
              \<and> (if context s' = EGL_NO_CONTEXT then e = ''Failed to create EGLContext''
                  else e = ''Unable to eglMakeCurrent''))
       \<and> logged s' = logged s @ new_logged s s'"
proof -
  let ?s1 = "InitEGLContext_loop p es_versions s"
  let ?ok = "eglMakeCurrent p (calls ?s1) (display ?s1) (surface ?s1) (surface ?s1) (context ?s1)"
  let ?s2 = "call (EglMakeCurrent (display ?s1) (surface ?s1) (surface ?s1) (context ?s1) ?ok) ?s1"
  note fr = InitEGLContext_loop_frame [of p es_versions s]
  show ?thesis
  proof (cases "context ?s1 = EGL_NO_CONTEXT")
    case True
    with R have "r = Threw ''Failed to create EGLContext''"
      "s' = LOG Error ''Failed to create EGLContext'' [] ?s1"
      by (simp_all add: InitEGLContext_def Let_def LOG_ERROR_AND_THROW_def)
    with True fr show ?thesis by (simp add: new_logged_def)
  next
    case live: False
    show ?thesis
    proof (cases ?ok)
      case False
      with R live have "r = Threw ''Unable to eglMakeCurrent''"
        "s' = LOG Error ''Unable to eglMakeCurrent'' [] ?s2"
        by (simp_all add: InitEGLContext_def Let_def LOG_ERROR_AND_THROW_def)
      with live fr show ?thesis by (simp add: new_logged_def)
    next
      case True
      with R live have "r = Returned True"
        "s' = (LOG Info ''Created OpenGLES Context '' [major_version ?s2, minor_version ?s2] ?s2)
                \<lparr>context_valid := True\<rparr>"
        by (simp_all add: InitEGLContext_def Let_def)
      with live fr show ?thesis by (simp add: new_logged_def)
    qed
  qed
qed

subsection \<open>Terminate\<close>

lemma Terminate_props:
  "display (Terminate p s) = EGL_NO_DISPLAY \<and> surface (Terminate p s) = EGL_NO_SURFACE
   \<and> context (Terminate p s) = EGL_NO_CONTEXT \<and> context_valid (Terminate p s) = False
   \<and> config (Terminate p s) = config s \<and> window (Terminate p s) = window s
   \<and> major_version (Terminate p s) = major_version s
   \<and> minor_version (Terminate p s) = minor_version s
   \<and> egl_context_initialized (Terminate p s) = egl_context_initialized s
   \<and> gles_initialized (Terminate p s) = gles_initialized s
   \<and> logged (Terminate p s) = logged s
   \<and> (\<exists>cs. calls (Terminate p s) = calls s @ cs
         \<and> applied_intervals cs = [] \<and> create_attempts cs = [] \<and> chosen_configs cs = [])"
  by (simp add: Terminate_def Let_def)

lemma InitEGLContext_loop_calls:
  "\<exists>att. calls (InitEGLContext_loop p vs s) = calls s @ map (attempt_call s) att"
proof (cases "context s = EGL_NO_CONTEXT \<and> vs \<noteq> []")
  case True
  then show ?thesis using InitEGLContext_loop_attempts [of s vs p] by blast
next
  case False
  then have "InitEGLContext_loop p vs s = s" by (cases vs) auto
  then show ?thesis by (intro exI [of _ "[]"]) simp
qed

lemma InitEGLContext_calls:
  assumes "InitEGLContext p s = (r, s')"
  shows "\<exists>cs. calls s' = calls s @ cs \<and> applied_intervals cs = [] \<and> chosen_configs cs = []"
proof -
  from InitEGLContext_props [OF assms] obtain mc where
    "calls s' = calls (InitEGLContext_loop p es_versions s) @ mc"
    "applied_intervals mc = []" "chosen_configs mc = []" by blast
  moreover obtain att where
    "calls (InitEGLContext_loop p es_versions s) = calls s @ map (attempt_call s) att"
    using InitEGLContext_loop_calls by blast
  ultimately show ?thesis by simp
qed

subsection \<open>SwapBuffers\<close>

lemma SwapBuffers_no_surface:
  "surface s = EGL_NO_SURFACE \<Longrightarrow>
   SwapBuffers p r s = (Returned (), LOG Warning ''No EGL surface when swapping buffers. This happens when SwapBuffers() is called after Suspend(). The operation will be ignored.'' [] s)"
  by (simp add: SwapBuffers_def)

lemma applied_intervals_swap_calls [simp]:
  "applied_intervals (swap_calls p r s) = [min (max r (min_swap_interval s)) (max_swap_interval s)]"
  by (simp add: swap_calls_def Let_def)

lemma swap_calls_other [simp]:
  "create_attempts (swap_calls p r s) = []" "chosen_configs (swap_calls p r s) = []"
  "releases (swap_calls p r s) = []" "swap_calls p r s \<noteq> []"
  by (simp_all add: swap_calls_def Let_def releases_def)

lemma SwapBuffers_ok:
  assumes "surface s \<noteq> EGL_NO_SURFACE" and "swap_failure p r s = None"
  shows "SwapBuffers p r s = (Returned (), s\<lparr>calls := calls s @ swap_calls p r s\<rparr>)"
proof -
  let ?i = "min (max r (min_swap_interval s)) (max_swap_interval s)"
  let ?h1 = "calls s @ [EglSwapInterval (display s) ?i]"
  have b: "eglSwapBuffers p ?h1 (display s) (surface s)"
    using assms by (simp add: swap_failure_def Let_def split: if_splits)
  have c: "swap_calls p r s = [EglSwapInterval (display s) ?i,
             EglSwapBuffers (display s) (surface s) True]"
    using b by (simp add: swap_calls_def Let_def)
  show ?thesis
    unfolding c using assms(1) b by (simp add: SwapBuffers_def Let_def call_def)
qed

lemma SwapBuffers_failed:
  assumes "swap_failure p r s = Some err"
  shows "SwapBuffers p r s =
     (let s3 = s\<lparr>calls := calls s @ swap_calls p r s\<rparr> in
      if err = EGL_BAD_SURFACE then
        (case InitEGLSurface p
                (LOG Info ''EGL surface has been lost. Attempting to recreate'' [] s3) of
           (Returned r, s4) \<Rightarrow> (Returned (), s4)
         | (Threw e, s4) \<Rightarrow> (Returned (), LOG Error ''Failed to recreate EGL surface'' [] s4))
      else if err = EGL_CONTEXT_LOST \<or> err = EGL_BAD_CONTEXT then
        (case InitEGLContext p (Terminate p (s3\<lparr>context_valid := False\<rparr>)) of
           (Returned r, s4) \<Rightarrow> (Returned (), s4)
         | (Threw e, s4) \<Rightarrow> (Threw e, s4))
      else (Returned (), s3))"
proof -
  let ?i = "min (max r (min_swap_interval s)) (max_swap_interval s)"
  let ?h1 = "calls s @ [EglSwapInterval (display s) ?i]"
  have sf: "surface s \<noteq> EGL_NO_SURFACE"
    using assms by (simp add: swap_failure_def split: if_splits)
  have nb: "\<not> eglSwapBuffers p ?h1 (display s) (surface s)"
    using assms sf by (simp add: swap_failure_def Let_def split: if_splits)
  have e: "eglGetError p (?h1 @ [EglSwapBuffers (display s) (surface s) False]) = err"
    using assms sf nb by (simp add: swap_failure_def Let_def)
  have c: "swap_calls p r s = [EglSwapInterval (display s) ?i,
             EglSwapBuffers (display s) (surface s) False, EglGetError err]"
    using nb e by (simp add: swap_calls_def Let_def)
  show ?thesis
    unfolding c using sf nb e by (simp add: SwapBuffers_def Let_def call_def)
qed

lemma es_versions_descending: "sorted_wrt newer es_versions"
  by (simp add: es_versions_def newer_def)

subsection \<open>Negotiation on the sentinel display\<close>

lemma InitEGLContext_no_display:
  assumes rej: "\<forall>h cfg ma mi. eglCreateContext p h EGL_NO_DISPLAY cfg ma mi = EGL_NO_CONTEXT"
    and d: "display s = EGL_NO_DISPLAY" and c: "context s = EGL_NO_CONTEXT"
  shows "fst (InitEGLContext p s) = Threw ''Failed to create EGLContext''
       \<and> context (snd (InitEGLContext p s)) = EGL_NO_CONTEXT
       \<and> context_valid (snd (InitEGLContext p s)) = context_valid s
       \<and> display (snd (InitEGLContext p s)) = EGL_NO_DISPLAY
       \<and> surface (snd (InitEGLContext p s)) = surface s
       \<and> create_attempts (new_calls s (snd (InitEGLContext p s)))
           = map (\<lambda>v. (v, EGL_NO_CONTEXT)) es_versions
       \<and> (major_version (snd (InitEGLContext p s)), minor_version (snd (InitEGLContext p s)))
           = last es_versions"
proof -
  obtain r s' where R: "InitEGLContext p s = (r, s')" by (cases "InitEGLContext p s")
  let ?s1 = "InitEGLContext_loop p es_versions s"
  have ne: "es_versions \<noteq> []" by (simp add: es_versions_def)
  from InitEGLContext_loop_attempts [OF c ne, of p] obtain att where att:
    "calls ?s1 = calls s @ map (attempt_call s) att"
    "att \<noteq> []" "map fst att = take (length att) es_versions"
    "\<forall>a \<in> set att. \<exists>h. snd a = eglCreateContext p h (display s) (config s)
                                          (fst (fst a)) (snd (fst a))"
    "snd (last att) = context ?s1"
    "fst (last att) = (major_version ?s1, minor_version ?s1)"
    "context ?s1 = EGL_NO_CONTEXT \<longrightarrow> length att = length es_versions"
    by blast
  have z: "\<forall>a \<in> set att. snd a = EGL_NO_CONTEXT"
    using att(4) rej d by auto
  then have c1: "context ?s1 = EGL_NO_CONTEXT" using att(2,5) by auto
  with att(7) have len: "length att = length es_versions" by simp
  with att(3) have vs: "map fst att = es_versions" by simp
  have "att = map (\<lambda>v. (v, EGL_NO_CONTEXT)) (map fst att)"
    using z by (induction att) (auto simp add: prod_eq_iff)
  with vs have A: "att = map (\<lambda>v. (v, EGL_NO_CONTEXT)) es_versions" by simp
  have lastv: "(major_version ?s1, minor_version ?s1) = last es_versions"
    using att(2,6) vs by (metis last_map)
  from InitEGLContext_props [OF R] obtain mc where P:
    "context s' = context ?s1" "major_version s' = major_version ?s1"
    "minor_version s' = minor_version ?s1" "calls s' = calls ?s1 @ mc"
    "create_attempts mc = []" "display s' = display s" "surface s' = surface s"
    "\<forall>e. r = Threw e \<longrightarrow> context_valid s' = context_valid s
         \<and> (if context s' = EGL_NO_CONTEXT then e = ''Failed to create EGLContext''
                  else e = ''Unable to eglMakeCurrent'')"
    "\<forall>b. r = Returned b \<longrightarrow> context s' \<noteq> EGL_NO_CONTEXT"
    by blast
  have T: "r = Threw ''Failed to create EGLContext''" "context_valid s' = context_valid s"
    using P(1,8,9) c1 by (cases r; simp)+
  have C: "create_attempts (new_calls s s') = att"
    using P(4,5) att(1) by (simp add: new_calls_def)
  show ?thesis
    using R T C A P(1,2,3,6,7) c1 d lastv by simp
qed

subsection \<open>The platform calls of Present\<close>

lemma SwapBuffers_calls:
  assumes sf: "surface s \<noteq> EGL_NO_SURFACE"
  shows "\<exists>cs. calls (snd (SwapBuffers p r s)) = calls s @ swap_calls p r s @ cs
            \<and> applied_intervals cs = []"
proof -
  let ?s3 = "s\<lparr>calls := calls s @ swap_calls p r s\<rparr>"
  show ?thesis
  proof (cases "swap_failure p r s")
    case None
    with sf show ?thesis by (simp add: SwapBuffers_ok)
  next
    case (Some err)
    note F = SwapBuffers_failed [OF Some]
    consider (surface_lost) "err = EGL_BAD_SURFACE"
      | (context_lost) "err \<noteq> EGL_BAD_SURFACE" "err = EGL_CONTEXT_LOST \<or> err = EGL_BAD_CONTEXT"
      | (other) "err \<noteq> EGL_BAD_SURFACE" "\<not> (err = EGL_CONTEXT_LOST \<or> err = EGL_BAD_CONTEXT)"
      by blast
    then show ?thesis
    proof cases
      case surface_lost
      obtain r4 s4 where I: "InitEGLSurface p
          (LOG Info ''EGL surface has been lost. Attempting to recreate'' [] ?s3) = (r4, s4)"
        by (cases "InitEGLSurface p
          (LOG Info ''EGL surface has been lost. Attempting to recreate'' [] ?s3)")
      from InitEGLSurface_props [OF I] obtain cs where
        "calls s4 = calls s @ swap_calls p r s @ cs" "applied_intervals cs = []" by auto
      with F surface_lost I show ?thesis
        by (cases r4) (simp_all add: Let_def)
    next
      case context_lost
      let ?t = "Terminate p (?s3\<lparr>context_valid := False\<rparr>)"
      obtain r4 s4 where I: "InitEGLContext p ?t = (r4, s4)" by (cases "InitEGLContext p ?t")
      from Terminate_props [of p "?s3\<lparr>context_valid := False\<rparr>"] obtain ts where
        "calls ?t = calls s @ swap_calls p r s @ ts" "applied_intervals ts = []" by auto
      moreover from InitEGLContext_calls [OF I] obtain cs where
        "calls s4 = calls ?t @ cs" "applied_intervals cs = []" by auto
      ultimately have "calls s4 = calls s @ swap_calls p r s @ ts @ cs"
        "applied_intervals (ts @ cs) = []" by simp_all
      with F context_lost I show ?thesis
        by (cases r4) (simp_all add: Let_def)
    next
      case other
      with F show ?thesis by (simp add: Let_def)
    qed
  qed
qed

lemma swap_calls_take2:
  "take 2 (swap_calls p r s @ cs)
     = [EglSwapInterval (display s) (min (max r (min_swap_interval s)) (max_swap_interval s)),
        EglSwapBuffers (display s) (surface s)
          (eglSwapBuffers p (calls s @ [EglSwapInterval (display s)
              (min (max r (min_swap_interval s)) (max_swap_interval s))]) (display s) (surface s))]"
  by (simp add: swap_calls_def Let_def)

lemma Suspend_surface: "surface (Suspend p s) = EGL_NO_SURFACE"
  by (simp add: Suspend_def Let_def)

subsection \<open>Present after a surface loss\<close>

lemma Present_surface_lost_cases:
  assumes F: "swap_failure p r s = Some EGL_BAD_SURFACE"
  obtains (recreated) s' cs c d where
      "SwapBuffers p r s = (Returned (), s')"
      "context s' = context s" "context_valid s' = context_valid s" "window s' = window s"
      "display s' \<noteq> EGL_NO_DISPLAY" "surface s' \<noteq> EGL_NO_SURFACE"
      "new_calls s s' = swap_calls p r s @ cs"
      "chosen_configs cs \<noteq> []" "last (chosen_configs cs) = Match (config s')"
      "EglCreateWindowSurface (display s') (config s') (window s) (surface s') \<in> set cs"
      "new_logged s s' = [Log Info ''EGL surface has been lost. Attempting to recreate'' [],
                          Log Info ''Chosen EGL config: '' [c, d]]"
    | (failed) s' ls e where
      "SwapBuffers p r s = (Returned (), s')"
      "context s' = context s" "context_valid s' = context_valid s" "window s' = window s"
      "new_logged s s' = ls @ [Log Error e [], recreate_failed]"
proof -
  let ?s3 = "LOG Info ''EGL surface has been lost. Attempting to recreate'' []
               (s\<lparr>calls := calls s @ swap_calls p r s\<rparr>)"
  obtain r4 s4 where I: "InitEGLSurface p ?s3 = (r4, s4)" by (cases "InitEGLSurface p ?s3")
  note P = InitEGLSurface_props [OF I]
  from P obtain cs where cs: "calls s4 = calls s @ swap_calls p r s @ cs"
    "\<forall>b. r4 = Returned b \<longrightarrow>
        chosen_configs cs \<noteq> [] \<and> last (chosen_configs cs) = Match (config s4)
        \<and> EglCreateWindowSurface (display s4) (config s4) (window s) (surface s4) \<in> set cs"
    by auto
  from P have fr: "context s4 = context s" "context_valid s4 = context_valid s"
    "window s4 = window s" by simp_all
  from P have lg: "logged s4 = logged s
      @ Log Info ''EGL surface has been lost. Attempting to recreate'' [] # new_logged ?s3 s4"
    by simp
  show thesis
  proof (cases r4)
    case (Returned b)
    with SwapBuffers_failed [OF F] I have S: "SwapBuffers p r s = (Returned (), s4)"
      by (simp add: Let_def)
    from P Returned obtain c d where
      "new_logged ?s3 s4 = [Log Info ''Chosen EGL config: '' [c, d]]"
      "display s4 \<noteq> EGL_NO_DISPLAY" "surface s4 \<noteq> EGL_NO_SURFACE" by auto
    with lg cs Returned fr S show thesis
      by (intro recreated [of s4 cs c d]) (simp_all add: new_calls_def new_logged_def)
  next
    case (Threw e)
    let ?s5 = "LOG Error ''Failed to recreate EGL surface'' [] s4"
    from Threw SwapBuffers_failed [OF F] I have S: "SwapBuffers p r s = (Returned (), ?s5)"
      by (simp add: Let_def)
    from P Threw have "new_logged ?s3 s4 \<noteq> []" "last (new_logged ?s3 s4) = Log Error e []"
      by simp_all
    then have "new_logged ?s3 s4 = butlast (new_logged ?s3 s4) @ [Log Error e []]"
      by (metis append_butlast_last_id)
    with lg have "new_logged s ?s5
        = (Log Info ''EGL surface has been lost. Attempting to recreate'' []
             # butlast (new_logged ?s3 s4)) @ [Log Error e [], recreate_failed]"
      by (simp add: new_logged_def [of s] recreate_failed_def)
    with fr S show thesis
      by (intro failed [of ?s5]) simp_all
  qed
qed

subsection \<open>Resume\<close>

lemma last_logged:
  assumes "logged s' = logged s @ new_logged s s'" "new_logged s s' \<noteq> []"
  shows "logged s' \<noteq> [] \<and> last (logged s') = last (new_logged s s')"
  using assms by (metis append_is_Nil_conv last_appendR)

lemma Resume_recover_props:
  assumes R: "Resume_recover p s = (r, s')"
  shows "(\<forall>c. r = Returned c \<longrightarrow>
            c = eglGetError p (calls s) \<and> context_valid s' \<and> context s' \<noteq> EGL_NO_CONTEXT)
       \<and> (\<forall>e. r = Threw e \<longrightarrow> logged s' \<noteq> [] \<and> last (logged s') = Log Error e [])
       \<and> (eglGetError p (calls s) = EGL_CONTEXT_LOST \<longrightarrow>
            chosen_configs (new_calls s s') = [] \<and> config s' = config s)
       \<and> (eglGetError p (calls s) \<noteq> EGL_CONTEXT_LOST \<longrightarrow>
            (\<forall>c. r = Returned c \<longrightarrow>
               chosen_configs (new_calls s s') \<noteq> []
               \<and> last (chosen_configs (new_calls s s')) = Match (config s')))"
proof -
  let ?err = "eglGetError p (calls s)"
  let ?s1 = "LOG Warning ''Unable to eglMakeCurrent '' [?err] (call (EglGetError ?err) s)"
  show ?thesis
  proof (cases "?err = EGL_CONTEXT_LOST")
    case True
    let ?s1' = "LOG Info ''Re-creating egl context'' [] ?s1"
    obtain r2 s2 where I: "InitEGLContext p ?s1' = (r2, s2)" by (cases "InitEGLContext p ?s1'")
    with R True have E: "r = (case r2 of Threw e \<Rightarrow> Threw e | Returned b \<Rightarrow> Returned ?err)"
      "s' = s2"
      by (simp_all add: Resume_recover_def Let_def split: result.splits)
    note P = InitEGLContext_props [OF I]
    from InitEGLContext_calls [OF I] obtain cs where
      cs: "calls s2 = calls s @ EglGetError ?err # cs" "chosen_configs cs = []" by auto
    have l: "\<forall>e. r2 = Threw e \<longrightarrow> logged s2 \<noteq> [] \<and> last (logged s2) = Log Error e []"
      using P last_logged [of s2 ?s1'] by auto
    show ?thesis
      using True E P cs l by (cases r2) (simp_all add: new_calls_def)
  next
    case False
    let ?t = "Terminate p (LOG Info ''Re-creating egl context and surface'' [] ?s1)"
    obtain r2 s2 where S: "InitEGLSurface p ?t = (r2, s2)" by (cases "InitEGLSurface p ?t")
    note T = Terminate_props [of p "LOG Info ''Re-creating egl context and surface'' [] ?s1"]
    note PS = InitEGLSurface_props [OF S]
    show ?thesis
    proof (cases r2)
      case (Threw e)
      with R False S have E: "r = Threw e" "s' = s2"
        by (simp_all add: Resume_recover_def Let_def)
      have "logged s2 \<noteq> [] \<and> last (logged s2) = Log Error e []"
        using PS Threw last_logged [of s2 ?t] by auto
      with E False show ?thesis by simp
    next
      case (Returned b)
      obtain r3 s3 where I: "InitEGLContext p s2 = (r3, s3)" by (cases "InitEGLContext p s2")
      with R False S Returned have
        E: "r = (case r3 of Threw e \<Rightarrow> Threw e | Returned b \<Rightarrow> Returned ?err)" "s' = s3"
        by (simp_all add: Resume_recover_def Let_def split: result.splits)
      note P = InitEGLContext_props [OF I]
      from T obtain ts where ts: "calls ?t = calls s @ EglGetError ?err # ts"
        "chosen_configs ts = []" by auto
      from PS Returned obtain cs2 where cs2: "calls s2 = calls ?t @ cs2"
        "chosen_configs cs2 \<noteq> []" "last (chosen_configs cs2) = Match (config s2)" by auto
      from InitEGLContext_calls [OF I] obtain cs3 where
        cs3: "calls s3 = calls s2 @ cs3" "chosen_configs cs3 = []" by auto
      have ch: "chosen_configs (new_calls s s3) = chosen_configs cs2"
        using ts cs2(1) cs3 by (simp add: new_calls_def)
      have l: "\<forall>e. r3 = Threw e \<longrightarrow> logged s3 \<noteq> [] \<and> last (logged s3) = Log Error e []"
        using P last_logged [of s3 s2] by auto
      show ?thesis
        using False E P ch cs2(2,3) l by (cases r3) simp_all
    qed
  qed
qed

lemma UpdateScreenSize_props:
  "display (UpdateScreenSize p s) = display s \<and> surface (UpdateScreenSize p s) = surface s
   \<and> context (UpdateScreenSize p s) = context s \<and> config (UpdateScreenSize p s) = config s
   \<and> window (UpdateScreenSize p s) = window s
   \<and> egl_context_initialized (UpdateScreenSize p s) = egl_context_initialized s
   \<and> (\<exists>q1 q2. calls (UpdateScreenSize p s)
         = calls s @ [EglQuerySurface (display s) (surface s) EGL_WIDTH q1,
                      EglQuerySurface (display s) (surface s) EGL_HEIGHT q2])
   \<and> (\<exists>ls. logged (UpdateScreenSize p s) = logged s @ ls)"
  by (simp add: UpdateScreenSize_def Let_def)

lemma Resume_attempt_props:
  assumes A: "Resume_attempt p w s = (ok, s4)"
  shows "config s4 = config s \<and> context s4 = context s \<and> display s4 = display s
       \<and> window s4 = w \<and> logged s4 = logged s @ new_logged s s4
       \<and> egl_context_initialized s4 = egl_context_initialized s
       \<and> (\<exists>cs. new_calls s s4 = EglCreateWindowSurface (display s) (config s) w (surface s4) # cs
              \<and> chosen_configs cs = [] \<and> calls s4 = calls s @ new_calls s s4)"
proof -
  let ?sf = "eglCreateWindowSurface p (calls s) (display s) (config s) w"
  let ?s2 = "call (EglCreateWindowSurface (display s) (config s) w ?sf) (s\<lparr>window := w, surface := ?sf\<rparr>)"
  let ?s3 = "UpdateScreenSize p ?s2"
  note U = UpdateScreenSize_props [of p ?s2]
  from U obtain q1 q2 where c: "calls ?s3 = calls ?s2
      @ [EglQuerySurface (display ?s2) (surface ?s2) EGL_WIDTH q1,
         EglQuerySurface (display ?s2) (surface ?s2) EGL_HEIGHT q2]" by blast
  from U obtain ls where l: "logged ?s3 = logged ?s2 @ ls" by blast
  from A have s4: "s4 = call (EglMakeCurrent (display ?s3) (surface ?s3) (surface ?s3) (context ?s3) ok) ?s3"
    by (auto simp add: Resume_attempt_def Let_def)
  have f: "config ?s3 = config s" "context ?s3 = context s" "display ?s3 = display s"
    "window ?s3 = w" "surface ?s3 = ?sf" "egl_context_initialized ?s3 = egl_context_initialized s"
    using U by simp_all
  show ?thesis
    unfolding s4 using f c l by (simp add: new_calls_def new_logged_def)
qed

subsection \<open>Init\<close>

lemma InitGLES_frame:
  "display (InitGLES p s) = display s \<and> surface (InitGLES p s) = surface s
   \<and> context (InitGLES p s) = context s \<and> context_valid (InitGLES p s) = context_valid s
   \<and> major_version (InitGLES p s) = major_version s
   \<and> minor_version (InitGLES p s) = minor_version s
   \<and> gles_initialized (InitGLES p s)"
  by (simp add: InitGLES_def Let_def)

lemma Init_debug_frame:
  "display (Init_debug p s) = display s \<and> surface (Init_debug p s) = surface s
   \<and> context (Init_debug p s) = context s \<and> context_valid (Init_debug p s) = context_valid s
   \<and> major_version (Init_debug p s) = major_version s
   \<and> minor_version (Init_debug p s) = minor_version s
   \<and> gles_initialized (Init_debug p s) = gles_initialized s"
  by (simp add: Init_debug_def Let_def)

lemma Init_finish_frame:
  "display (Init_debug p (InitGLES p s)) = display s
   \<and> surface (Init_debug p (InitGLES p s)) = surface s
   \<and> context (Init_debug p (InitGLES p s)) = context s
   \<and> context_valid (Init_debug p (InitGLES p s)) = context_valid s
   \<and> major_version (Init_debug p (InitGLES p s)) = major_version s
   \<and> minor_version (Init_debug p (InitGLES p s)) = minor_version s
   \<and> gles_initialized (Init_debug p (InitGLES p s))"
  using InitGLES_frame [of p s] Init_debug_frame [of p "InitGLES p s"] by simp

lemma negotiated_version:
  assumes "context s = EGL_NO_CONTEXT"
  shows "(major_version (InitEGLContext_loop p es_versions s),
          minor_version (InitEGLContext_loop p es_versions s)) \<in> set es_versions"
proof -
  have ne: "es_versions \<noteq> []" by (simp add: es_versions_def)
  from InitEGLContext_loop_attempts [OF assms ne, of p]
  obtain att :: "((int \<times> int) \<times> handle) list" where att:
    "att \<noteq> []" "map fst att = take (length att) es_versions"
    "fst (last att) = (major_version (InitEGLContext_loop p es_versions s),
                       minor_version (InitEGLContext_loop p es_versions s))"
    by blast
  have "fst (last att) \<in> set (map fst att)" using att(1) by simp
  then have "fst (last att) \<in> set es_versions"
    unfolding att(2) by (rule in_set_takeD)
  then show ?thesis by (simp add: att(3))
qed

lemma Init_window_Returned:
  assumes ni: "\<not> egl_context_initialized s" and w: "w \<noteq> nullptr"
    and R: "Init p w s = (Returned b, s')"
  shows "egl_context_initialized s' \<and> gles_initialized s' \<and> context_valid s'
       \<and> display s' \<noteq> EGL_NO_DISPLAY \<and> surface s' \<noteq> EGL_NO_SURFACE
       \<and> context s' \<noteq> EGL_NO_CONTEXT
       \<and> (context s = EGL_NO_CONTEXT \<longrightarrow>
            (major_version s', minor_version s') \<in> set es_versions)"
proof -
  let ?s1 = "s\<lparr>window := w\<rparr>"
  obtain r2 s2 where S: "InitEGLSurface p ?s1 = (r2, s2)" by (cases "InitEGLSurface p ?s1")
  obtain r3 s3 where C: "InitEGLContext p s2 = (r3, s3)" by (cases "InitEGLContext p s2")
  have U: "Init p w s =
      (case r2 of Threw e \<Rightarrow> (Threw e, s2)
       | Returned b2 \<Rightarrow>
           (case r3 of Threw e \<Rightarrow> (Threw e, s3)
            | Returned b3 \<Rightarrow>
                (Returned True,
                 (Init_debug p (InitGLES p s3))\<lparr>egl_context_initialized := True\<rparr>)))"
    using ni w S C by (cases r2; cases r3) (simp_all add: Init_def Let_def)
  from R U obtain b2 where r2: "r2 = Returned b2" by (cases r2) simp_all
  from R U r2 obtain b3 where r3: "r3 = Returned b3" by (cases r3) simp_all
  from R U r2 r3 have s': "s' = (Init_debug p (InitGLES p s3))\<lparr>egl_context_initialized := True\<rparr>"
    by simp
  note PS = InitEGLSurface_props [OF S [unfolded r2]]
  note PC = InitEGLContext_props [OF C [unfolded r3]]
  from PS have a: "display s2 \<noteq> EGL_NO_DISPLAY" "surface s2 \<noteq> EGL_NO_SURFACE"
    "context s2 = context s" by simp_all
  from PC have c: "display s3 = display s2" "surface s3 = surface s2"
    "context s3 \<noteq> EGL_NO_CONTEXT" "context_valid s3"
    "major_version s3 = major_version (InitEGLContext_loop p es_versions s2)"
    "minor_version s3 = minor_version (InitEGLContext_loop p es_versions s2)" by simp_all
  have v: "(major_version s3, minor_version s3) \<in> set es_versions" if "context s = EGL_NO_CONTEXT"
    using negotiated_version [of s2 p] that a(3) c(5,6) by simp
  show ?thesis
    unfolding s' using Init_finish_frame [of p s3] a c v by simp
qed

lemma Init_attach_Returned:
  assumes ni: "\<not> egl_context_initialized s" and w: "w = nullptr"
    and R: "Init p w s = (Returned b, s')"
  shows "egl_context_initialized s' \<and> gles_initialized s' \<and> context_valid s'"
proof -
  let ?s1 = "s\<lparr>window := w\<rparr>"
  obtain r2 s2 where A: "AttachToCurrentEGLContext p ?s1 = (r2, s2)"
    by (cases "AttachToCurrentEGLContext p ?s1")
  have U: "Init p w s =
      (case r2 of Threw e \<Rightarrow> (Threw e, s2)
       | Returned u \<Rightarrow>
           (Returned True, (Init_debug p (InitGLES p s2))\<lparr>egl_context_initialized := True\<rparr>))"
    using ni w A by (cases r2) (simp_all add: Init_def Let_def)
  from R U obtain u where r2: "r2 = Returned u" by (cases r2) simp_all
  from R U r2 have s': "s' = (Init_debug p (InitGLES p s2))\<lparr>egl_context_initialized := True\<rparr>"
    by simp
  from A r2 have "context_valid s2"
    by (auto simp add: AttachToCurrentEGLContext_def Let_def LOG_ERROR_AND_THROW_def
          split: if_splits)
  then show ?thesis
    unfolding s' using Init_finish_frame [of p s2] by simp
qed

subsection \<open>The swap-interval bounds and a state without a context\<close>

lemma InitEGLSurface_surface_bounds:
  assumes "InitEGLSurface_surface p s = (Returned b, s')"
  shows "\<exists>mn mx.
           last (butlast (new_calls s s'))
             = EglGetConfigAttrib (display s) (config s) EGL_MIN_SWAP_INTERVAL mn
         \<and> last (new_calls s s')
             = EglGetConfigAttrib (display s) (config s) EGL_MAX_SWAP_INTERVAL mx
         \<and> min_swap_interval s' = out_param mn (min_swap_interval s)
         \<and> max_swap_interval s' = out_param mx (max_swap_interval s)"
  using assms
  by (auto simp add: InitEGLSurface_surface_def Let_def LOG_ERROR_AND_THROW_def new_calls_def
        split: if_splits)

text \<open>
  The state \<open>contextless\<close> is what a Resume leaves behind, up to the recorded
  calls and log lines, when recovery re-creates display and surface and then finds
  no context.
\<close>

lemma contextless_reachable:
  "fst (Resume exhausted 7 live) = Threw ''Failed to create EGLContext''
   \<and> (snd (Resume exhausted 7 live))\<lparr>calls := [], logged := []\<rparr> = contextless"
  by (simp add: Resume_def Resume_attempt_def Resume_recover_def UpdateScreenSize_def
        Terminate_def InitEGLContext_def es_versions_def surface_defs out_param_def Let_def
        call_def LOG_def LOG_ERROR_AND_THROW_def witness_defs egl_consts)

section \<open>The claims\<close>

text \<open>
  C1. When the buffer swap of Present fails and the error read back is
  EGL_CONTEXT_LOST or EGL_BAD_CONTEXT, Present clears the validity flag and runs
  Terminate, which resets the display to EGL_NO_DISPLAY, and then InitEGLContext,
  which asks for a context on that sentinel display. On a platform that creates no
  context on EGL_NO_DISPLAY, as EGL specifies, all three candidates are refused and
  the error ''Failed to create EGLContext'' leaves Present: the validity flag stays
  false, the handles stay at their sentinels, and the version recorded is that of
  the last refused candidate.
\<close>

theorem SwapBuffers_context_lost_raises:
  assumes F: "swap_failure p r s = Some err"
    and E: "err = EGL_CONTEXT_LOST \<or> err = EGL_BAD_CONTEXT"
    and rej: "\<forall>h cfg ma mi. eglCreateContext p h EGL_NO_DISPLAY cfg ma mi = EGL_NO_CONTEXT"
  shows "fst (SwapBuffers p r s) = Threw ''Failed to create EGLContext''
       \<and> context_valid (snd (SwapBuffers p r s)) = False
       \<and> display (snd (SwapBuffers p r s)) = EGL_NO_DISPLAY
       \<and> surface (snd (SwapBuffers p r s)) = EGL_NO_SURFACE
       \<and> context (snd (SwapBuffers p r s)) = EGL_NO_CONTEXT
       \<and> create_attempts (new_calls s (snd (SwapBuffers p r s)))
           = map (\<lambda>v. (v, EGL_NO_CONTEXT)) es_versions
       \<and> (major_version (snd (SwapBuffers p r s)), minor_version (snd (SwapBuffers p r s)))
           = last es_versions"
proof -
  let ?s3 = "s\<lparr>calls := calls s @ swap_calls p r s\<rparr>"
  let ?t = "Terminate p (?s3\<lparr>context_valid := False\<rparr>)"
  from E have nb: "err \<noteq> EGL_BAD_SURFACE" by (auto simp add: egl_consts)
  obtain r4 s4 where I: "InitEGLContext p ?t = (r4, s4)" by (cases "InitEGLContext p ?t")
  from Terminate_props [of p "?s3\<lparr>context_valid := False\<rparr>"] obtain ts where
    t: "display ?t = EGL_NO_DISPLAY" "context ?t = EGL_NO_CONTEXT" "surface ?t = EGL_NO_SURFACE"
       "context_valid ?t = False"
       "calls ?t = calls s @ swap_calls p r s @ ts" "create_attempts ts = []" by auto
  note n = InitEGLContext_no_display [OF rej t(1,2), unfolded I fst_conv snd_conv]
  have S: "SwapBuffers p r s = (Threw ''Failed to create EGLContext'', s4)"
    using SwapBuffers_failed [OF F] nb E I n by (simp add: Let_def)
  have "\<exists>cs. calls s4 = calls ?t @ cs"
    using InitEGLContext_calls [OF I] by blast
  then have "new_calls s s4 = swap_calls p r s @ ts @ new_calls ?t s4"
    using t(5) by (auto simp add: new_calls_def)
  then have "create_attempts (new_calls s s4) = create_attempts (new_calls ?t s4)"
    using t(6) by simp
  with n t show ?thesis unfolding S by simp
qed

text \<open>C1 on a live manager whose platform reports a lost context at the swap.\<close>

theorem SwapBuffers_context_lost_raises_witness:
  "swap_failure context_losing 7 live = Some EGL_CONTEXT_LOST
   \<and> (\<forall>h cfg ma mi. eglCreateContext context_losing h EGL_NO_DISPLAY cfg ma mi = EGL_NO_CONTEXT)
   \<and> context_valid live
   \<and> fst (SwapBuffers context_losing 7 live) = Threw ''Failed to create EGLContext''
   \<and> context_valid (snd (SwapBuffers context_losing 7 live)) = False
   \<and> display (snd (SwapBuffers context_losing 7 live)) = EGL_NO_DISPLAY
   \<and> major_version (snd (SwapBuffers context_losing 7 live)) = 3
   \<and> minor_version (snd (SwapBuffers context_losing 7 live)) = 0"
proof -
  have f: "swap_failure context_losing 7 live = Some EGL_CONTEXT_LOST"
    by (simp add: swap_failure_def Let_def witness_defs egl_consts)
  have rej: "\<forall>h cfg ma mi. eglCreateContext context_losing h EGL_NO_DISPLAY cfg ma mi = EGL_NO_CONTEXT"
    by (simp add: witness_defs egl_consts)
  have v: "context_valid live" by (simp add: live_def)
  from SwapBuffers_context_lost_raises [OF f _ rej] f rej v show ?thesis
    by (simp add: es_versions_def)
qed

text \<open>
  C2. Whenever Present reaches the platform, the one swap interval it applies is
  the request clamped into the cached bounds \<open>[min_swap_interval, max_swap_interval]\<close>
  ; no other interval is handed to the platform during the call, recovery included,
  and none at all when there is no surface. The bounds are taken to be ordered, as
  a range is. They are captured where InitEGLSurface creates the surface for the
  configuration it has chosen: its last two platform calls ask that configuration
  for EGL_MIN_SWAP_INTERVAL and EGL_MAX_SWAP_INTERVAL, and the cache holds the answers.
\<close>

theorem SwapBuffers_applies_clamped:
  assumes "min_swap_interval s \<le> max_swap_interval s"
  shows "applied_intervals (new_calls s (snd (SwapBuffers p r s))) =
           (if surface s = EGL_NO_SURFACE then []
            else [clamp r (min_swap_interval s) (max_swap_interval s)])
       \<and> (\<forall>b s'. InitEGLSurface_surface p s = (Returned b, s') \<longrightarrow>
            (\<exists>mn mx.
                last (butlast (new_calls s s'))
                  = EglGetConfigAttrib (display s) (config s) EGL_MIN_SWAP_INTERVAL mn
              \<and> last (new_calls s s')
                  = EglGetConfigAttrib (display s) (config s) EGL_MAX_SWAP_INTERVAL mx
              \<and> min_swap_interval s' = out_param mn (min_swap_interval s)
              \<and> max_swap_interval s' = out_param mx (max_swap_interval s)))"
proof (intro conjI allI impI)
  fix b s' assume "InitEGLSurface_surface p s = (Returned b, s')"
  then show "\<exists>mn mx.
                last (butlast (new_calls s s'))
                  = EglGetConfigAttrib (display s) (config s) EGL_MIN_SWAP_INTERVAL mn
              \<and> last (new_calls s s')
                  = EglGetConfigAttrib (display s) (config s) EGL_MAX_SWAP_INTERVAL mx
              \<and> min_swap_interval s' = out_param mn (min_swap_interval s)
              \<and> max_swap_interval s' = out_param mx (max_swap_interval s)"
    by (rule InitEGLSurface_surface_bounds)
next
  have cl: "min (max r (min_swap_interval s)) (max_swap_interval s)
              = clamp r (min_swap_interval s) (max_swap_interval s)"
    using assms by (simp add: clamp_def)
  let ?s3 = "s\<lparr>calls := calls s @ swap_calls p r s\<rparr>"
  show "applied_intervals (new_calls s (snd (SwapBuffers p r s))) =
           (if surface s = EGL_NO_SURFACE then []
            else [clamp r (min_swap_interval s) (max_swap_interval s)])"
  proof (cases "surface s = EGL_NO_SURFACE")
    case True
    then show ?thesis by (simp add: SwapBuffers_no_surface new_calls_def)
  next
    case sf: False
    show ?thesis
    proof (cases "swap_failure p r s")
      case None
      with sf show ?thesis by (simp add: SwapBuffers_ok new_calls_def cl)
    next
      case (Some err)
      note F = SwapBuffers_failed [OF Some]
      consider (surface_lost) "err = EGL_BAD_SURFACE"
        | (context_lost) "err \<noteq> EGL_BAD_SURFACE" "err = EGL_CONTEXT_LOST \<or> err = EGL_BAD_CONTEXT"
        | (other) "err \<noteq> EGL_BAD_SURFACE" "\<not> (err = EGL_CONTEXT_LOST \<or> err = EGL_BAD_CONTEXT)"
        by blast
      then show ?thesis
      proof cases
        case surface_lost
        obtain r4 s4 where I: "InitEGLSurface p
            (LOG Info ''EGL surface has been lost. Attempting to recreate'' [] ?s3) = (r4, s4)"
          by (cases "InitEGLSurface p
            (LOG Info ''EGL surface has been lost. Attempting to recreate'' [] ?s3)")
        from InitEGLSurface_props [OF I] obtain cs where
          "calls s4 = calls s @ swap_calls p r s @ cs" "applied_intervals cs = []" by auto
        with F surface_lost I sf show ?thesis
          by (cases r4) (simp_all add: Let_def new_calls_def cl)
      next
        case context_lost
        let ?t = "Terminate p (?s3\<lparr>context_valid := False\<rparr>)"
        obtain r4 s4 where I: "InitEGLContext p ?t = (r4, s4)" by (cases "InitEGLContext p ?t")
        from Terminate_props [of p "?s3\<lparr>context_valid := False\<rparr>"] obtain ts where
          "calls ?t = calls s @ swap_calls p r s @ ts" "applied_intervals ts = []" by auto
        moreover from InitEGLContext_calls [OF I] obtain cs where
          "calls s4 = calls ?t @ cs" "applied_intervals cs = []" by auto
        ultimately have "calls s4 = calls s @ swap_calls p r s @ ts @ cs"
          "applied_intervals (ts @ cs) = []" by simp_all
        with F context_lost I sf show ?thesis
          by (cases r4) (simp_all add: Let_def new_calls_def cl)
      next
        case other
        with F sf show ?thesis by (simp add: Let_def new_calls_def cl)
      qed
    qed
  qed
qed

text \<open>C2 at work: requests above, below and inside the range \<open>[0, 4]\<close>.\<close>

theorem SwapBuffers_applies_clamped_witness:
  "min_swap_interval live \<le> max_swap_interval live
   \<and> applied_intervals (new_calls live (snd (SwapBuffers steady 7 live))) = [4]
   \<and> applied_intervals (new_calls live (snd (SwapBuffers steady (- 2) live))) = [0]
   \<and> applied_intervals (new_calls live (snd (SwapBuffers steady 1 live))) = [1]
   \<and> fst (InitEGLSurface_surface steady (live\<lparr>min_swap_interval := 1, max_swap_interval := 1\<rparr>))
       = Returned True
   \<and> min_swap_interval
        (snd (InitEGLSurface_surface steady (live\<lparr>min_swap_interval := 1, max_swap_interval := 1\<rparr>)))
       = 0
   \<and> max_swap_interval
        (snd (InitEGLSurface_surface steady (live\<lparr>min_swap_interval := 1, max_swap_interval := 1\<rparr>)))
       = 4"
proof -
  have h: "min_swap_interval live \<le> max_swap_interval live" by (simp add: live_def)
  have sf: "surface live \<noteq> EGL_NO_SURFACE" by (simp add: live_def egl_consts)
  have b: "min_swap_interval live = 0" "max_swap_interval live = 4" by (simp_all add: live_def)
  have i: "fst (InitEGLSurface_surface steady (live\<lparr>min_swap_interval := 1, max_swap_interval := 1\<rparr>))
       = Returned True
   \<and> min_swap_interval
        (snd (InitEGLSurface_surface steady (live\<lparr>min_swap_interval := 1, max_swap_interval := 1\<rparr>)))
       = 0
   \<and> max_swap_interval
        (snd (InitEGLSurface_surface steady (live\<lparr>min_swap_interval := 1, max_swap_interval := 1\<rparr>)))
       = 4"
    by (simp add: InitEGLSurface_surface_def out_param_def Let_def witness_defs egl_consts)
  show ?thesis
    using h sf i SwapBuffers_applies_clamped [OF h, of steady 7]
      SwapBuffers_applies_clamped [OF h, of steady "- 2"]
      SwapBuffers_applies_clamped [OF h, of steady 1]
    by (simp add: b clamp_def)
qed

text \<open>
  C3, as the code has it. The guard of Present is on the surface alone: with the
  surface at its sentinel, and so in every state that Suspend leaves, Present logs
  one warning and returns, with no platform call and no other change to the object.
  With a live surface the guard does not fire, whatever the display and the
  context are: Present applies the interval and requests the swap.
\<close>

theorem SwapBuffers_without_surface:
  "(surface s = EGL_NO_SURFACE \<longrightarrow>
      SwapBuffers p r s = (Returned (), s\<lparr>logged := logged s @ [Log Warning no_surface_warning []]\<rparr>))
   \<and> SwapBuffers p r (Suspend p s)
       = (Returned (), (Suspend p s)\<lparr>logged := logged (Suspend p s) @ [Log Warning no_surface_warning []]\<rparr>)
   \<and> (surface s \<noteq> EGL_NO_SURFACE \<longrightarrow>
        take 2 (new_calls s (snd (SwapBuffers p r s)))
          = [EglSwapInterval (display s) (min (max r (min_swap_interval s)) (max_swap_interval s)),
             EglSwapBuffers (display s) (surface s) (swap_failure p r s = None)])"
proof (intro conjI impI)
  assume "surface s = EGL_NO_SURFACE"
  then show "SwapBuffers p r s
      = (Returned (), s\<lparr>logged := logged s @ [Log Warning no_surface_warning []]\<rparr>)"
    by (simp add: SwapBuffers_no_surface no_surface_warning_def LOG_def)
next
  show "SwapBuffers p r (Suspend p s)
       = (Returned (), (Suspend p s)\<lparr>logged := logged (Suspend p s) @ [Log Warning no_surface_warning []]\<rparr>)"
    by (simp add: SwapBuffers_no_surface Suspend_surface no_surface_warning_def LOG_def)
next
  assume sf: "surface s \<noteq> EGL_NO_SURFACE"
  from SwapBuffers_calls [OF sf, of p r] obtain cs where
    "calls (snd (SwapBuffers p r s)) = calls s @ swap_calls p r s @ cs" by blast
  then have "new_calls s (snd (SwapBuffers p r s)) = swap_calls p r s @ cs"
    by (simp add: new_calls_def)
  moreover have "(swap_failure p r s = None)
      = eglSwapBuffers p (calls s @ [EglSwapInterval (display s)
              (min (max r (min_swap_interval s)) (max_swap_interval s))]) (display s) (surface s)"
    using sf by (simp add: swap_failure_def Let_def)
  ultimately show "take 2 (new_calls s (snd (SwapBuffers p r s)))
          = [EglSwapInterval (display s) (min (max r (min_swap_interval s)) (max_swap_interval s)),
             EglSwapBuffers (display s) (surface s) (swap_failure p r s = None)]"
    by (simp only: swap_calls_take2)
qed

text \<open>C3 after Invalidate, after Suspend, and on a live manager.\<close>

theorem SwapBuffers_without_surface_witness:
  "surface invalidated = EGL_NO_SURFACE
   \<and> SwapBuffers steady 1 invalidated
       = (Returned (), invalidated\<lparr>logged := [Log Warning no_surface_warning []]\<rparr>)
   \<and> surface live \<noteq> EGL_NO_SURFACE
   \<and> snd (SwapBuffers steady 1 (Suspend steady live))
       = live\<lparr>surface := EGL_NO_SURFACE, calls := [EglDestroySurface 1 2],
               logged := [Log Info ''Suspending gl context'' [], Log Info ''Destroying egl surface'' [],
                          Log Warning no_surface_warning []]\<rparr>
   \<and> new_calls live (snd (SwapBuffers steady 1 live))
       = [EglSwapInterval 1 1, EglSwapBuffers 1 2 True]"
proof -
  have a: "surface invalidated = EGL_NO_SURFACE" by (simp add: witness_defs egl_consts)
  have b: "surface live \<noteq> EGL_NO_SURFACE" by (simp add: witness_defs egl_consts)
  have c: "Suspend steady live
      = live\<lparr>surface := EGL_NO_SURFACE, calls := [EglDestroySurface 1 2],
               logged := [Log Info ''Suspending gl context'' [], Log Info ''Destroying egl surface'' []]\<rparr>"
    by (simp add: Suspend_def Let_def witness_defs egl_consts call_def LOG_def)
  have d: "new_calls live (snd (SwapBuffers steady 1 live))
       = [EglSwapInterval 1 1, EglSwapBuffers 1 2 True]"
    by (simp add: SwapBuffers_def Let_def witness_defs egl_consts call_def new_calls_def)
  from SwapBuffers_without_surface [of invalidated steady 1]
    SwapBuffers_without_surface [of live steady 1] a b c d
  show ?thesis by (simp add: witness_defs)
qed

text \<open>
  C3 as stated fails where the context is at its sentinel and the surface is
  live: Present reaches the platform, and on a failed swap with EGL_BAD_CONTEXT it
  tears the display and the surface down and raises. The state is one a failed
  Resume leaves behind (\<open>contextless_reachable\<close>).
\<close>

theorem SwapBuffers_guard_counterexample:
  "context contextless = EGL_NO_CONTEXT
   \<and> fst (SwapBuffers context_rejecting 7 contextless) = Threw ''Failed to create EGLContext''
   \<and> display (snd (SwapBuffers context_rejecting 7 contextless)) \<noteq> display contextless
   \<and> surface (snd (SwapBuffers context_rejecting 7 contextless)) \<noteq> surface contextless
   \<and> new_calls contextless (snd (SwapBuffers context_rejecting 7 contextless)) \<noteq> []"
  by (simp add: SwapBuffers_def Terminate_def InitEGLContext_def es_versions_def Let_def
        call_def LOG_def LOG_ERROR_AND_THROW_def new_calls_def witness_defs egl_consts)

text \<open>
  C4. Starting without a context, negotiation asks the platform for the candidates
  of \<open>es_versions\<close> in list order, which is strictly descending; every attempt
  before the last one failed, so it stops at the first success; the version
  recorded is that of the last attempt; all candidates are tried before it gives up.
  On a platform that accepts the lowest candidate only, all three are tried and the
  recorded version is the lowest one.
\<close>

theorem InitEGLContext_negotiation:
  assumes "context s = EGL_NO_CONTEXT"
  shows "let s' = snd (InitEGLContext p s); att = create_attempts (new_calls s s') in
     sorted_wrt newer es_versions
     \<and> att \<noteq> [] \<and> map fst att = take (length att) es_versions
     \<and> (\<forall>a \<in> set (butlast att). snd a = EGL_NO_CONTEXT)
     \<and> snd (last att) = context s'
     \<and> (major_version s', minor_version s') = fst (last att)
     \<and> (context s' = EGL_NO_CONTEXT \<longrightarrow>
          length att = length es_versions
          \<and> fst (InitEGLContext p s) = Threw ''Failed to create EGLContext'')
     \<and> ((\<forall>h ma mi. (eglCreateContext p h (display s) (config s) ma mi \<noteq> EGL_NO_CONTEXT)
                      = ((ma, mi) = last es_versions)) \<longrightarrow>
          map fst att = es_versions
          \<and> (major_version s', minor_version s') = last es_versions
          \<and> context s' \<noteq> EGL_NO_CONTEXT)"
proof -
  obtain r s' where R: "InitEGLContext p s = (r, s')" by (cases "InitEGLContext p s")
  let ?s1 = "InitEGLContext_loop p es_versions s"
  have ne: "es_versions \<noteq> []" by (simp add: es_versions_def)
  from InitEGLContext_loop_attempts [OF assms ne, of p] obtain att where att:
    "calls ?s1 = calls s @ map (attempt_call s) att"
    "att \<noteq> []" "map fst att = take (length att) es_versions"
    "\<forall>a \<in> set (butlast att). snd a = EGL_NO_CONTEXT"
    "\<forall>a \<in> set att. \<exists>h. snd a = eglCreateContext p h (display s) (config s)
                                          (fst (fst a)) (snd (fst a))"
    "snd (last att) = context ?s1"
    "fst (last att) = (major_version ?s1, minor_version ?s1)"
    "context ?s1 = EGL_NO_CONTEXT \<longrightarrow> length att = length es_versions"
    by blast
  from InitEGLContext_props [OF R] obtain mc where P:
    "context s' = context ?s1" "major_version s' = major_version ?s1"
    "minor_version s' = minor_version ?s1" "calls s' = calls ?s1 @ mc"
    "create_attempts mc = []"
    "\<forall>e. r = Threw e \<longrightarrow> (if context s' = EGL_NO_CONTEXT then e = ''Failed to create EGLContext''
                  else e = ''Unable to eglMakeCurrent'')"
    "\<forall>b. r = Returned b \<longrightarrow> context s' \<noteq> EGL_NO_CONTEXT"
    by blast
  have A: "create_attempts (new_calls s s') = att"
    using P(4,5) att(1) by (simp add: new_calls_def)
  have T: "context s' = EGL_NO_CONTEXT \<Longrightarrow> r = Threw ''Failed to create EGLContext''"
    using P(6,7) by (cases r) auto
  have low: "map fst att = es_versions
          \<and> (major_version s', minor_version s') = last es_versions
          \<and> context s' \<noteq> EGL_NO_CONTEXT"
    if H: "\<forall>h ma mi. (eglCreateContext p h (display s) (config s) ma mi \<noteq> EGL_NO_CONTEXT)
                      = ((ma, mi) = last es_versions)"
  proof -
    have acc: "snd a \<noteq> EGL_NO_CONTEXT \<longleftrightarrow> fst a = last es_versions" if "a \<in> set att" for a
      using att(5) that H by (metis prod.collapse)
    have len: "length att \<le> 3"
      using arg_cong [OF att(3), of length] by (simp add: es_versions_def)
    have la: "last att \<in> set att" using att(2) by simp
    have bl: "\<forall>a \<in> set (butlast att). fst a \<noteq> last es_versions"
      using att(4) acc in_set_butlastD by metis
    have lv: "fst (last att) = last (take (length att) es_versions)"
      using att(2,3) by (metis last_map)
    have "0 < length att" using att(2) by simp
    with len consider "length att = 1" | "length att = 2" | "length att = 3"
      by linarith
    then show ?thesis
    proof cases
      case 1
      then have "fst (last att) = (3, 2)" using lv by (simp add: es_versions_def)
      then have "snd (last att) = EGL_NO_CONTEXT" using acc [OF la] by (simp add: es_versions_def)
      with att(6,8) 1 show ?thesis by (simp add: es_versions_def)
    next
      case 2
      then have "fst (last att) = (3, 1)" using lv by (simp add: es_versions_def numeral_2_eq_2)
      then have "snd (last att) = EGL_NO_CONTEXT" using acc [OF la] by (simp add: es_versions_def)
      with att(6,8) 2 show ?thesis by (simp add: es_versions_def)
    next
      case 3
      then have v: "fst (last att) = last es_versions" using lv by (simp add: es_versions_def)
      then have "snd (last att) \<noteq> EGL_NO_CONTEXT" using acc [OF la] by simp
      with att(3,6,7) 3 v P(1,2,3) show ?thesis by (simp add: es_versions_def)
    qed
  qed
  show ?thesis
    using R A att(2,3,4,6,7,8) P(1,2,3) T low es_versions_descending
    by (simp add: Let_def)
qed



text \<open>C4 on the platform that accepts 3.0 only: 3.2 and 3.1 are refused, 3.0 is recorded.\<close>

theorem InitEGLContext_negotiation_witness:
  "context contextless = EGL_NO_CONTEXT
   \<and> (\<forall>h ma mi. (eglCreateContext lowest_only h (display contextless) (config contextless) ma mi
                    \<noteq> EGL_NO_CONTEXT) = ((ma, mi) = last es_versions))
   \<and> create_attempts (new_calls contextless (snd (InitEGLContext lowest_only contextless)))
       = [((3, 2), 0), ((3, 1), 0), ((3, 0), 3)]
   \<and> major_version (snd (InitEGLContext lowest_only contextless)) = 3
   \<and> minor_version (snd (InitEGLContext lowest_only contextless)) = 0"
proof -
  have h: "context contextless = EGL_NO_CONTEXT"
    by (simp add: witness_defs egl_consts)
  have a: "\<forall>h ma mi. (eglCreateContext lowest_only h (display contextless) (config contextless) ma mi
                    \<noteq> EGL_NO_CONTEXT) = ((ma, mi) = last es_versions)"
    by (simp add: witness_defs egl_consts es_versions_def)
  have c: "create_attempts (new_calls contextless (snd (InitEGLContext lowest_only contextless)))
       = [((3, 2), 0), ((3, 1), 0), ((3, 0), 3)]"
    by (simp add: InitEGLContext_def es_versions_def Let_def witness_defs egl_consts
          new_calls_def LOG_ERROR_AND_THROW_def)
  from InitEGLContext_negotiation [OF h, of lowest_only, unfolded Let_def] a
  have "(major_version (snd (InitEGLContext lowest_only contextless)),
         minor_version (snd (InitEGLContext lowest_only contextless))) = last es_versions"
    by blast
  with h a c show ?thesis by (simp add: es_versions_def)
qed

text \<open>
  C5. Terminate is idempotent. The first call, on a live display, releases the
  context (if any), then the surface (if any), then the display connection, in that
  order; on a sentinel display it releases nothing. The second call makes no
  platform call at all and changes nothing. Neither call logs or raises, and after
  each one the three handles are at their sentinels and the validity flag is false.
\<close>

theorem Terminate_idempotent:
  "Terminate p (Terminate p s) = Terminate p s
   \<and> display (Terminate p s) = EGL_NO_DISPLAY
   \<and> context (Terminate p s) = EGL_NO_CONTEXT
   \<and> surface (Terminate p s) = EGL_NO_SURFACE
   \<and> context_valid (Terminate p s) = False
   \<and> display (Terminate p (Terminate p s)) = EGL_NO_DISPLAY
   \<and> context (Terminate p (Terminate p s)) = EGL_NO_CONTEXT
   \<and> surface (Terminate p (Terminate p s)) = EGL_NO_SURFACE
   \<and> context_valid (Terminate p (Terminate p s)) = False
   \<and> logged (Terminate p (Terminate p s)) = logged s
   \<and> new_calls (Terminate p s) (Terminate p (Terminate p s)) = []
   \<and> releases (new_calls s (Terminate p s)) =
       (if display s = EGL_NO_DISPLAY then []
        else (if context s = EGL_NO_CONTEXT then [] else [EglDestroyContext (display s) (context s)])
           @ (if surface s = EGL_NO_SURFACE then [] else [EglDestroySurface (display s) (surface s)])
           @ [EglTerminate (display s)])"
  by (simp add: Terminate_def Let_def call_def new_calls_def releases_def)

text \<open>
  C6, as the code has it. The cached configuration is reused, with no constraint
  matching, where Resume creates the surface directly (its first platform call is
  eglCreateWindowSurface with the cached configuration) and where Resume recovers
  from EGL_CONTEXT_LOST, which re-creates no surface. Every recovery that
  re-creates the surface does it through InitEGLSurface and so reselects the
  configuration: after a surface loss during Present whose re-creation succeeds,
  and after a Resume whose make-current failed with another error and whose
  recovery returns, eglChooseConfig has been called again and the configuration
  held is its last answer.
\<close>

theorem config_reuse_and_reselection:
  "chosen_configs (new_calls s (snd (Resume_attempt p w s))) = []
   \<and> config (snd (Resume_attempt p w s)) = config s
   \<and> hd (new_calls s (snd (Resume_attempt p w s)))
       = EglCreateWindowSurface (display s) (config s) w (surface (snd (Resume_attempt p w s)))
   \<and> (swap_failure p r s = Some EGL_BAD_SURFACE
        \<and> recreate_failed \<notin> set (new_logged s (snd (SwapBuffers p r s))) \<longrightarrow>
          chosen_configs (new_calls s (snd (SwapBuffers p r s))) \<noteq> []
          \<and> last (chosen_configs (new_calls s (snd (SwapBuffers p r s))))
              = Match (config (snd (SwapBuffers p r s))))
   \<and> (eglGetError p (calls s) \<noteq> EGL_CONTEXT_LOST
        \<and> (\<exists>c. fst (Resume_recover p s) = Returned c) \<longrightarrow>
          chosen_configs (new_calls s (snd (Resume_recover p s))) \<noteq> []
          \<and> last (chosen_configs (new_calls s (snd (Resume_recover p s))))
              = Match (config (snd (Resume_recover p s))))
   \<and> (eglGetError p (calls s) = EGL_CONTEXT_LOST \<longrightarrow>
          chosen_configs (new_calls s (snd (Resume_recover p s))) = []
          \<and> config (snd (Resume_recover p s)) = config s)"
proof -
  obtain ok s4 where A: "Resume_attempt p w s = (ok, s4)" by (cases "Resume_attempt p w s")
  from Resume_attempt_props [OF A] have a:
    "chosen_configs (new_calls s (snd (Resume_attempt p w s))) = []
     \<and> config (snd (Resume_attempt p w s)) = config s
     \<and> hd (new_calls s (snd (Resume_attempt p w s)))
       = EglCreateWindowSurface (display s) (config s) w (surface (snd (Resume_attempt p w s)))"
    unfolding A by auto
  have b: "chosen_configs (new_calls s (snd (SwapBuffers p r s))) \<noteq> []
          \<and> last (chosen_configs (new_calls s (snd (SwapBuffers p r s))))
              = Match (config (snd (SwapBuffers p r s)))"
    if F: "swap_failure p r s = Some EGL_BAD_SURFACE"
      and ok: "recreate_failed \<notin> set (new_logged s (snd (SwapBuffers p r s)))"
    using F
  proof (cases rule: Present_surface_lost_cases)
    case (recreated s' cs c d)
    then show ?thesis by simp
  next
    case (failed s' ls e)
    with ok show ?thesis by simp
  qed
  obtain rr s' where R: "Resume_recover p s = (rr, s')" by (cases "Resume_recover p s")
  note c = Resume_recover_props [OF R]
  from a b c show ?thesis unfolding R by simp
qed

text \<open>C6 on a surface loss during Present and on a Resume that has to start over.\<close>

theorem config_reuse_and_reselection_witness:
  "swap_failure surface_losing 7 live = Some EGL_BAD_SURFACE
   \<and> recreate_failed \<notin> set (new_logged live (snd (SwapBuffers surface_losing 7 live)))
   \<and> chosen_configs (new_calls live (snd (SwapBuffers surface_losing 7 live))) \<noteq> []
   \<and> last (chosen_configs (new_calls live (snd (SwapBuffers surface_losing 7 live))))
        = Match (config (snd (SwapBuffers surface_losing 7 live)))
   \<and> eglGetError stale_display (calls live) \<noteq> EGL_CONTEXT_LOST
   \<and> fst (Resume_recover stale_display live) = Returned 0x3003
   \<and> last (chosen_configs (new_calls live (snd (Resume_recover stale_display live))))
        = Match (config (snd (Resume_recover stale_display live)))
   \<and> chosen_configs (new_calls live (snd (Resume_attempt steady 7 live))) = []"
proof -
  have f: "swap_failure surface_losing 7 live = Some EGL_BAD_SURFACE"
    by (simp add: swap_failure_def Let_def witness_defs egl_consts)
  have l: "recreate_failed \<notin> set (new_logged live (snd (SwapBuffers surface_losing 7 live)))"
    by (simp add: SwapBuffers_def surface_defs out_param_def Let_def recreate_failed_def
          new_logged_def LOG_ERROR_AND_THROW_def witness_defs egl_consts)
  have e: "eglGetError stale_display (calls live) \<noteq> EGL_CONTEXT_LOST"
    by (simp add: witness_defs egl_consts)
  have r: "fst (Resume_recover stale_display live) = Returned 0x3003"
    by (simp add: Resume_recover_def Terminate_def InitEGLContext_def es_versions_def
          surface_defs out_param_def Let_def LOG_ERROR_AND_THROW_def witness_defs egl_consts)
  from config_reuse_and_reselection [of live surface_losing 7 7]
    config_reuse_and_reselection [of live stale_display 7 7]
    config_reuse_and_reselection [of live steady 7 7] f l e r
  show ?thesis by simp
qed

text \<open>
  C6 as stated fails at a surface loss during Present: constraint matching
  runs again, and the manager holds its new answer 9 in place of configuration 5.
\<close>

theorem config_reselected_counterexample:
  "chosen_configs (new_calls live (snd (SwapBuffers surface_losing 7 live))) = [Match 9]
   \<and> config live = 5
   \<and> config (snd (SwapBuffers surface_losing 7 live)) = 9"
  by (simp add: SwapBuffers_def surface_defs out_param_def Let_def new_calls_def
        LOG_ERROR_AND_THROW_def witness_defs egl_consts)

text \<open>
  C7, as the code has it. When the swap fails with EGL_BAD_SURFACE, Present re-runs
  InitEGLSurface and always returns normally; the context handle, the validity flag
  and the window are unchanged. Either the error line of the caught exception is the
  last thing logged, or the surface and the display are live and the surface was
  created for the same window against the configuration that InitEGLSurface has
  just reselected (the last answer of eglChooseConfig), which need not be the
  configuration held before.
\<close>

theorem SwapBuffers_surface_lost:
  assumes F: "swap_failure p r s = Some EGL_BAD_SURFACE"
  shows "fst (SwapBuffers p r s) = Returned ()
     \<and> context (snd (SwapBuffers p r s)) = context s
     \<and> context_valid (snd (SwapBuffers p r s)) = context_valid s
     \<and> window (snd (SwapBuffers p r s)) = window s
     \<and> (if recreate_failed \<in> set (new_logged s (snd (SwapBuffers p r s)))
         then last (new_logged s (snd (SwapBuffers p r s))) = recreate_failed
         else surface (snd (SwapBuffers p r s)) \<noteq> EGL_NO_SURFACE
            \<and> display (snd (SwapBuffers p r s)) \<noteq> EGL_NO_DISPLAY
            \<and> EglCreateWindowSurface (display (snd (SwapBuffers p r s)))
                 (config (snd (SwapBuffers p r s))) (window s) (surface (snd (SwapBuffers p r s)))
                 \<in> set (new_calls s (snd (SwapBuffers p r s)))
            \<and> last (chosen_configs (new_calls s (snd (SwapBuffers p r s))))
                 = Match (config (snd (SwapBuffers p r s))))"
  using F
proof (cases rule: Present_surface_lost_cases)
  case (recreated s' cs c d)
  then show ?thesis by (simp add: recreate_failed_def)
next
  case (failed s' ls e)
  then show ?thesis by simp
qed

text \<open>
  C7 where the 24-bit configuration no longer matches and the fallback is taken,
  and where no surface can be created and the exception is caught.
\<close>

theorem SwapBuffers_surface_lost_witness:
  "swap_failure surface_losing_16 7 live = Some EGL_BAD_SURFACE
   \<and> fst (SwapBuffers surface_losing_16 7 live) = Returned ()
   \<and> context (snd (SwapBuffers surface_losing_16 7 live)) = 3
   \<and> context_valid (snd (SwapBuffers surface_losing_16 7 live))
   \<and> surface (snd (SwapBuffers surface_losing_16 7 live)) = 2
   \<and> config (snd (SwapBuffers surface_losing_16 7 live)) = 6
   \<and> swap_failure surface_gone 7 live = Some EGL_BAD_SURFACE
   \<and> fst (SwapBuffers surface_gone 7 live) = Returned ()
   \<and> context (snd (SwapBuffers surface_gone 7 live)) = 3
   \<and> surface (snd (SwapBuffers surface_gone 7 live)) = EGL_NO_SURFACE
   \<and> last (logged (snd (SwapBuffers surface_gone 7 live))) = recreate_failed"
proof -
  have f: "swap_failure surface_losing_16 7 live = Some EGL_BAD_SURFACE"
    by (simp add: swap_failure_def Let_def witness_defs egl_consts)
  have e: "config (snd (SwapBuffers surface_losing_16 7 live)) = 6
      \<and> surface (snd (SwapBuffers surface_losing_16 7 live)) = 2"
    by (simp add: SwapBuffers_def surface_defs out_param_def Let_def
          call_def LOG_def LOG_ERROR_AND_THROW_def witness_defs egl_consts)
  have g: "swap_failure surface_gone 7 live = Some EGL_BAD_SURFACE"
    by (simp add: swap_failure_def Let_def witness_defs egl_consts)
  have k: "surface (snd (SwapBuffers surface_gone 7 live)) = EGL_NO_SURFACE
      \<and> last (logged (snd (SwapBuffers surface_gone 7 live))) = recreate_failed"
    by (simp add: SwapBuffers_def surface_defs out_param_def Let_def recreate_failed_def
          call_def LOG_def LOG_ERROR_AND_THROW_def witness_defs egl_consts)
  from SwapBuffers_surface_lost [OF f] SwapBuffers_surface_lost [OF g] f g e k show ?thesis
    by (simp add: witness_defs)
qed

text \<open>
  C7 as stated fails in its "same configuration": here the manager held
  configuration 5, and the only surface created during recovery is created
  against configuration 6.
\<close>

theorem SwapBuffers_surface_lost_counterexample:
  "swap_failure surface_losing_16 7 live = Some EGL_BAD_SURFACE
   \<and> config live = 5
   \<and> [c \<leftarrow> new_calls live (snd (SwapBuffers surface_losing_16 7 live)).
         \<exists>d cfg w sf. c = EglCreateWindowSurface d cfg w sf]
       = [EglCreateWindowSurface 1 6 7 2]"
  by (simp add: swap_failure_def SwapBuffers_def surface_defs out_param_def Let_def new_calls_def
        LOG_ERROR_AND_THROW_def witness_defs egl_consts)

text \<open>
  C8. On a manager that is not initialised, Resume logs its line and runs Init on
  the given window: it ends in the state Init ends in, returns EGL_SUCCESS where
  Init returns, and raises what Init raises. Where it returns, the manager is
  initialised and the context valid; with a window, display, surface and context
  are live, and, the context having been at its sentinel before, the version that a
  capability query reports is one of the three candidates, with major version 3.
\<close>

theorem Resume_uninitialized:
  assumes ni: "egl_context_initialized s = False"
  shows "snd (Resume p w s) = snd (Init p w (LOG Info ''Resuming gl context'' [] s))
     \<and> fst (Resume p w s)
         = (case fst (Init p w (LOG Info ''Resuming gl context'' [] s)) of
              Returned b \<Rightarrow> Returned EGL_SUCCESS | Threw e \<Rightarrow> Threw e)
     \<and> (\<forall>c. fst (Resume p w s) = Returned c \<longrightarrow>
           c = EGL_SUCCESS
           \<and> egl_context_initialized (snd (Resume p w s))
           \<and> gles_initialized (snd (Resume p w s))
           \<and> context_valid (snd (Resume p w s))
           \<and> (w \<noteq> nullptr \<longrightarrow>
                display (snd (Resume p w s)) \<noteq> EGL_NO_DISPLAY
                \<and> surface (snd (Resume p w s)) \<noteq> EGL_NO_SURFACE
                \<and> context (snd (Resume p w s)) \<noteq> EGL_NO_CONTEXT)
           \<and> (w \<noteq> nullptr \<and> context s = EGL_NO_CONTEXT \<longrightarrow>
                (MajorVersion (FillDeviceCaps (snd (Resume p w s)) caps),
                 MinorVersion (FillDeviceCaps (snd (Resume p w s)) caps)) \<in> set es_versions
                \<and> MajorVersion (FillDeviceCaps (snd (Resume p w s)) caps) = 3))"
proof -
  let ?s0 = "LOG Info ''Resuming gl context'' [] s"
  obtain r1 s1 where I: "Init p w ?s0 = (r1, s1)" by (cases "Init p w ?s0")
  from ni I have R: "Resume p w s
      = (case r1 of Threw e \<Rightarrow> Threw e | Returned b \<Rightarrow> Returned EGL_SUCCESS, s1)"
    by (simp add: Resume_def Let_def split: result.splits)
  have ni0: "\<not> egl_context_initialized ?s0" using ni by simp
  show ?thesis
  proof (cases r1)
    case (Threw e)
    with R I show ?thesis by simp
  next
    case (Returned b)
    have g: "egl_context_initialized s1 \<and> gles_initialized s1 \<and> context_valid s1"
      using Init_window_Returned [OF ni0 _ I [unfolded Returned]]
        Init_attach_Returned [OF ni0 _ I [unfolded Returned]] by blast
    have h: "display s1 \<noteq> EGL_NO_DISPLAY \<and> surface s1 \<noteq> EGL_NO_SURFACE
        \<and> context s1 \<noteq> EGL_NO_CONTEXT" if "w \<noteq> nullptr"
      using Init_window_Returned [OF ni0 that I [unfolded Returned]] by simp
    have v: "(major_version s1, minor_version s1) \<in> set es_versions"
      if "w \<noteq> nullptr" "context s = EGL_NO_CONTEXT"
      using Init_window_Returned [OF ni0 that(1) I [unfolded Returned]] that(2) by simp
    then have m: "major_version s1 = 3" if "w \<noteq> nullptr" "context s = EGL_NO_CONTEXT"
      using that by (auto simp add: es_versions_def)
    from R I Returned g h v m show ?thesis
      by (simp add: FillDeviceCaps_def)
  qed
qed

text \<open>C8 on a manager after Invalidate, resumed on a platform that accepts 3.2.\<close>

theorem Resume_uninitialized_witness:
  "egl_context_initialized invalidated = False
   \<and> context invalidated = EGL_NO_CONTEXT
   \<and> fst (Resume steady 7 invalidated) = Returned EGL_SUCCESS
   \<and> MajorVersion (FillDeviceCaps (snd (Resume steady 7 invalidated)) blank_caps) = 3
   \<and> MinorVersion (FillDeviceCaps (snd (Resume steady 7 invalidated)) blank_caps) = 2
   \<and> egl_context_initialized (snd (Resume steady 7 invalidated))"
proof -
  have i: "egl_context_initialized invalidated = False" by (simp add: witness_defs)
  have c: "context invalidated = EGL_NO_CONTEXT" by (simp add: witness_defs egl_consts)
  have r: "fst (Resume steady 7 invalidated) = Returned EGL_SUCCESS
      \<and> minor_version (snd (Resume steady 7 invalidated)) = 2"
    by (simp add: Resume_def Init_def InitGLES_def Init_debug_def
          InitEGLContext_def es_versions_def surface_defs out_param_def Let_def
          LOG_ERROR_AND_THROW_def witness_defs egl_consts)
  have w: "(7::nat) \<noteq> nullptr" by (simp add: nullptr_def)
  note T = Resume_uninitialized [OF i, of steady 7 blank_caps]
  from T r w c have m: "MajorVersion (FillDeviceCaps (snd (Resume steady 7 invalidated)) blank_caps) = 3"
    by blast
  from T r have e: "egl_context_initialized (snd (Resume steady 7 invalidated))"
    by blast
  from i c r m e show ?thesis
    by (simp add: FillDeviceCaps_def)
qed

text \<open>
  C9. UpdateScreenSize queries width and height (a failed query reads as 0). If the
  queried pair differs from the cached pair, the cache becomes the queried pair and
  one resize line is logged; if they are equal, the cache stays and nothing is
  logged. Nothing else of the object changes.
\<close>

theorem UpdateScreenSize_cache:
  "let d = display s; sf = surface s;
       qw = eglQuerySurface p (calls s) d sf EGL_WIDTH;
       qh = eglQuerySurface p (calls s @ [EglQuerySurface d sf EGL_WIDTH qw]) d sf EGL_HEIGHT;
       queried = (out_param qw 0, out_param qh 0);
       cached = (screen_width s, screen_height s);
       s' = UpdateScreenSize p s
   in new_calls s s' = [EglQuerySurface d sf EGL_WIDTH qw, EglQuerySurface d sf EGL_HEIGHT qh]
      \<and> (if queried \<noteq> cached
          then (screen_width s', screen_height s') = queried
             \<and> new_logged s s' = [Log Info ''Window size changed to '' [fst queried, snd queried]]
          else (screen_width s', screen_height s') = cached \<and> new_logged s s' = [])
      \<and> s'\<lparr>screen_width := screen_width s, screen_height := screen_height s,
            calls := calls s, logged := logged s\<rparr> = s"
  by (simp add: UpdateScreenSize_def Let_def call_def LOG_def new_calls_def new_logged_def)

text \<open>C9 on an unchanged screen and on a screen that was rotated.\<close>

theorem UpdateScreenSize_cache_witness:
  "new_logged live (UpdateScreenSize steady live) = []
   \<and> screen_width (UpdateScreenSize steady live) = 1080
   \<and> screen_height (UpdateScreenSize steady live) = 1920
   \<and> new_logged rotated (UpdateScreenSize steady rotated)
       = [Log Info ''Window size changed to '' [1080, 1920]]
   \<and> screen_width (UpdateScreenSize steady rotated) = 1080
   \<and> screen_height (UpdateScreenSize steady rotated) = 1920"
  using UpdateScreenSize_cache [of live steady] UpdateScreenSize_cache [of rotated steady]
  by (simp add: Let_def witness_defs out_param_def)

text \<open>
  C10. Let the make-current attempt of Resume end in state \<open>s4\<close> with answer
  \<open>ok\<close>. Whatever Resume returns is EGL_SUCCESS when the manager was not
  initialised or the attempt succeeded, and the error code read after the failed
  attempt otherwise. On an initialised manager a successful attempt returns at once;
  after a failed one Resume either returns that error code, and then recovery has
  succeeded (the context is live and valid), or leaves with the error that recovery
  raised. Hence, when the error code of a failed attempt is not EGL_SUCCESS itself,
  EGL_SUCCESS is returned only if the manager was never initialised or the attempt
  succeeded immediately.
\<close>

theorem Resume_status:
  assumes A: "Resume_attempt p w (LOG Info ''Resuming gl context'' [] s) = (ok, s4)"
  shows "(\<forall>c. fst (Resume p w s) = Returned c \<longrightarrow>
            c = (if egl_context_initialized s \<and> \<not> ok then eglGetError p (calls s4)
                 else EGL_SUCCESS))
       \<and> (egl_context_initialized s \<and> ok \<longrightarrow> Resume p w s = (Returned EGL_SUCCESS, s4))
       \<and> (egl_context_initialized s \<and> \<not> ok \<longrightarrow>
            (case fst (Resume p w s) of
               Returned c \<Rightarrow> c = eglGetError p (calls s4)
                              \<and> context_valid (snd (Resume p w s))
                              \<and> context (snd (Resume p w s)) \<noteq> EGL_NO_CONTEXT
             | Threw e \<Rightarrow> last (logged (snd (Resume p w s))) = Log Error e []))
       \<and> (fst (Resume p w s) = Returned EGL_SUCCESS \<and> eglGetError p (calls s4) \<noteq> EGL_SUCCESS
            \<longrightarrow> \<not> egl_context_initialized s \<or> ok)"
proof (cases "egl_context_initialized s")
  case False
  obtain r1 s1 where I: "Init p w (LOG Info ''Resuming gl context'' [] s) = (r1, s1)"
    by (cases "Init p w (LOG Info ''Resuming gl context'' [] s)")
  with False have "Resume p w s
      = (case r1 of Threw e \<Rightarrow> Threw e | Returned b \<Rightarrow> Returned EGL_SUCCESS, s1)"
    by (simp add: Resume_def Let_def split: result.splits)
  with False show ?thesis by (cases r1) simp_all
next
  case init: True
  show ?thesis
  proof (cases ok)
    case True
    with init A have "Resume p w s = (Returned EGL_SUCCESS, s4)"
      by (simp add: Resume_def Let_def)
    with init True show ?thesis by simp
  next
    case False
    with init A have R: "Resume p w s = Resume_recover p s4"
      by (simp add: Resume_def Let_def)
    obtain r s' where RR: "Resume_recover p s4 = (r, s')" by (cases "Resume_recover p s4")
    from Resume_recover_props [OF RR] have
      "\<forall>c. r = Returned c \<longrightarrow>
            c = eglGetError p (calls s4) \<and> context_valid s' \<and> context s' \<noteq> EGL_NO_CONTEXT"
      "\<forall>e. r = Threw e \<longrightarrow> last (logged s') = Log Error e []"
      by simp_all
    with init False show ?thesis unfolding R RR by (cases r) simp_all
  qed
qed

text \<open>
  C10 on a platform where make-current fails with EGL_BAD_ALLOC until the display
  has been torn down once: recovery succeeds and Resume still returns 0x3003.
\<close>

theorem Resume_status_witness:
  "egl_context_initialized live
   \<and> fst (Resume_attempt stale_display 7 (LOG Info ''Resuming gl context'' [] live)) = False
   \<and> eglGetError stale_display
        (calls (snd (Resume_attempt stale_display 7 (LOG Info ''Resuming gl context'' [] live))))
       = 0x3003
   \<and> fst (Resume stale_display 7 live) = Returned 0x3003
   \<and> context_valid (snd (Resume stale_display 7 live))
   \<and> fst (Resume_attempt steady 7 (LOG Info ''Resuming gl context'' [] live)) = True
   \<and> fst (Resume steady 7 live) = Returned EGL_SUCCESS"
proof -
  have i: "egl_context_initialized live" by (simp add: live_def)
  have a: "fst (Resume_attempt stale_display 7 (LOG Info ''Resuming gl context'' [] live)) = False"
    by (simp add: Resume_attempt_def UpdateScreenSize_def out_param_def Let_def witness_defs)
  have e: "eglGetError stale_display
        (calls (snd (Resume_attempt stale_display 7 (LOG Info ''Resuming gl context'' [] live))))
       = 0x3003"
    by (simp add: witness_defs)
  have r: "\<exists>c. fst (Resume stale_display 7 live) = Returned c"
    by (simp add: Resume_def Resume_attempt_def Resume_recover_def UpdateScreenSize_def
          Terminate_def InitEGLContext_def es_versions_def surface_defs out_param_def Let_def
          LOG_ERROR_AND_THROW_def witness_defs egl_consts)
  have b: "fst (Resume_attempt steady 7 (LOG Info ''Resuming gl context'' [] live)) = True"
    by (simp add: Resume_attempt_def UpdateScreenSize_def out_param_def Let_def witness_defs)
  from Resume_status [OF prod.collapse [symmetric], of stale_display 7 live]
    Resume_status [OF prod.collapse [symmetric], of steady 7 live] i a e r b
  show ?thesis by auto
qed

end
